theory Spec2Isabelle
  imports Complex_Main
begin

section \<open>JavaScript values\<close>

text \<open>
  The mapping utilities and the Grist client work on plain JavaScript data: what
  \<^verbatim>\<open>response.json()\<close> returns, plus \<^verbatim>\<open>Date\<close> objects, which \<^verbatim>\<open>serializeValue\<close>
  tests for. A number is a finite value (a rational; every finite double is one), NaN or
  an infinity. A \<^verbatim>\<open>Date\<close> carries its time value in milliseconds, \<open>None\<close> for the invalid
  date. An object is the list of its own enumerable properties in enumeration order, with
  distinct keys.

  Objects and arrays are references in JavaScript. Where identity does not matter a value
  is written inline (\<open>JArr\<close>, \<open>JObj\<close>); a shared or self-referential one is written
  \<open>JRef a\<close>, the address of a cell of the heap, which holds an array, an object or a date.
  Strings are lists of 8-bit characters (the Latin-1 range of the UTF-16 code units).
\<close>

datatype jsnum = Finite rat | NaN | PosInf | NegInf

datatype jsval =
    JUndefined
  | JNull
  | JBool bool
  | JNum jsnum
  | JStr string
  | JDate "int option"
  | JArr "jsval list"
  | JObj "(string \<times> jsval) list"
  | JRef nat

type_synonym heap = "(nat \<times> jsval) list"

text \<open>An \<^verbatim>\<open>Error\<close> instance: its \<^verbatim>\<open>name\<close>, \<^verbatim>\<open>message\<close> and \<^verbatim>\<open>stack\<close> (empty when absent).\<close>

datatype js_error = JsError (err_name: string) (err_message: string) (err_stack: string)

text \<open>
  What a \<^verbatim>\<open>throw\<close> or a rejected promise carries: an \<^verbatim>\<open>Error\<close> instance, or any other
  value (the \<^verbatim>\<open>catch\<close> blocks of the client test \<^verbatim>\<open>error instanceof Error\<close>).
\<close>

datatype thrown = Thrown_Error js_error | Thrown_Other jsval

text \<open>
  A property read on plain data may find more than plain data: a member inherited from a
  built-in prototype, which is a built-in function (\<^verbatim>\<open>{}.constructor\<close> is the function
  \<^verbatim>\<open>Object\<close>, \<^verbatim>\<open>{}.toString\<close> the method \<^verbatim>\<open>toString\<close>) or a built-in object
  (\<^verbatim>\<open>{}.__proto__\<close> is \<^verbatim>\<open>Object.prototype\<close>). A built-in function is written with its
  \<^verbatim>\<open>name\<close>, a built-in object with the expression that denotes it. These are the values
  that \<open>getNestedValue\<close> walks through and returns.
\<close>

datatype anyval =
    Data jsval
  | Builtin_function string
  | Builtin_object string

text \<open>
  What belongs to the JavaScript engine and is not computed here: the decimal text of a
  number (\<^verbatim>\<open>String(n)\<close>, also its JSON text), \<^verbatim>\<open>Date.prototype.toISOString\<close> of a valid
  time value, \<^verbatim>\<open>String(date)\<close>; what a read finds on a built-in value, or on the
  prototype chain of an array, a string, a number, a boolean or a date (the member,
  undefined when there is none, or the exception that an accessor raises); and what
  \<open>serializeValue\<close> computes on a built-in object (the empty string for
  \<^verbatim>\<open>Array.prototype\<close>, which is an array, otherwise the text of \<^verbatim>\<open>JSON.stringify\<close> or its
  exception). Every function that needs one takes the platform as its first argument.
\<close>

record platform =
  num_to_string :: "jsnum \<Rightarrow> string"
  date_to_iso :: "int \<Rightarrow> string"
  date_to_string :: "int option \<Rightarrow> string"
  builtin_member :: "anyval \<Rightarrow> string \<Rightarrow> js_error + anyval"
  builtin_serialized :: "string \<Rightarrow> js_error + jsval"

definition new_Error :: "string \<Rightarrow> thrown" where
  "new_Error msg = Thrown_Error (JsError ''Error'' msg '''')"

definition TypeError :: "string \<Rightarrow> thrown" where
  "TypeError msg = Thrown_Error (JsError ''TypeError'' msg '''')"

definition RangeError :: "string \<Rightarrow> thrown" where
  "RangeError msg = Thrown_Error (JsError ''RangeError'' msg '''')"

text \<open>\<^verbatim>\<open>!v\<close>: the falsy values (negative zero is not told apart from zero).\<close>

definition falsy :: "jsval \<Rightarrow> bool" where
  "falsy v = (v = JUndefined \<or> v = JNull \<or> v = JBool False \<or> v = JNum (Finite 0)
               \<or> v = JNum NaN \<or> v = JStr [])"

text \<open>The cell a reference points to; a value written inline is its own cell.\<close>

definition resolve :: "heap \<Rightarrow> jsval \<Rightarrow> jsval" where
  "resolve h v = (case v of
       JRef a \<Rightarrow> (case map_of h a of Some c \<Rightarrow> c | None \<Rightarrow> JUndefined)
     | _ \<Rightarrow> v)"

fun typeof_cell :: "jsval \<Rightarrow> string" where
  "typeof_cell JUndefined = ''undefined''"
| "typeof_cell (JBool b) = ''boolean''"
| "typeof_cell (JNum n) = ''number''"
| "typeof_cell (JStr s) = ''string''"
| "typeof_cell v = ''object''"

definition typeof :: "heap \<Rightarrow> jsval \<Rightarrow> string" where
  "typeof h v = typeof_cell (resolve h v)"

definition isArray :: "heap \<Rightarrow> jsval \<Rightarrow> bool" where
  "isArray h v = (case resolve h v of JArr xs \<Rightarrow> True | _ \<Rightarrow> False)"

definition isDate :: "heap \<Rightarrow> jsval \<Rightarrow> bool" where
  "isDate h v = (case resolve h v of JDate t \<Rightarrow> True | _ \<Rightarrow> False)"

subsection \<open>Decimal numerals and array indices\<close>

definition is_digit :: "char \<Rightarrow> bool" where
  "is_digit c = (c \<in> set ''0123456789'')"

definition digit_char :: "nat \<Rightarrow> char" where
  "digit_char d = ''0123456789'' ! d"

fun show_nat :: "nat \<Rightarrow> string" where
  "show_nat n = (if n < 10 then [digit_char n] else show_nat (n div 10) @ [digit_char (n mod 10)])"

declare show_nat.simps [simp del]

text \<open>The value of a run of decimal digits, most significant first.\<close>

definition digits_value :: "string \<Rightarrow> nat" where
  "digits_value ds = foldl (\<lambda>acc c. 10 * acc + (of_char c - 48)) 0 ds"

text \<open>
  A property key is an array index when it is the canonical decimal numeral of an integer
  below \<open>2^32 - 1\<close>: digits only, no leading zero.
\<close>

definition index_of_key :: "string \<Rightarrow> nat option" where
  "index_of_key k =
     (if k \<noteq> [] \<and> list_all is_digit k \<and> (k = ''0'' \<or> hd k \<noteq> CHR ''0'')
         \<and> digits_value k < 4294967295
      then Some (digits_value k) else None)"

subsection \<open>Reading and writing properties\<close>

text \<open>
  The own property of a cell under a key, undefined when the cell has none: a property of
  a plain object, the length or an element of an array, the length or a character of a
  string. \<open>has_own\<close> tells whether the cell has the property. A read that finds no own
  property goes on to the prototype chain: see \<open>object_member\<close> and \<open>read_property\<close>
  below.
\<close>

fun get_own :: "jsval \<Rightarrow> string \<Rightarrow> jsval" where
  "get_own (JObj ps) key = (case map_of ps key of Some v \<Rightarrow> v | None \<Rightarrow> JUndefined)"
| "get_own (JArr xs) key =
     (if key = ''length'' then JNum (Finite (of_nat (length xs)))
      else case index_of_key key of
             Some i \<Rightarrow> (if i < length xs then xs ! i else JUndefined)
           | None \<Rightarrow> JUndefined)"
| "get_own (JStr s) key =
     (if key = ''length'' then JNum (Finite (of_nat (length s)))
      else case index_of_key key of
             Some i \<Rightarrow> (if i < length s then JStr [s ! i] else JUndefined)
           | None \<Rightarrow> JUndefined)"
| "get_own v key = JUndefined"

definition has_own :: "jsval \<Rightarrow> string \<Rightarrow> bool" where
  "has_own c key = (case c of
       JObj ps \<Rightarrow> map_of ps key \<noteq> None
     | JArr xs \<Rightarrow>
         key = ''length''
           \<or> (case index_of_key key of Some i \<Rightarrow> i < length xs | None \<Rightarrow> False)
     | JStr s \<Rightarrow>
         key = ''length''
           \<or> (case index_of_key key of Some i \<Rightarrow> i < length s | None \<Rightarrow> False)
     | _ \<Rightarrow> False)"

text \<open>
  \<^verbatim>\<open>v.key\<close> for one of the keys that the client reads off a JSON response (\<^verbatim>\<open>records\<close>,
  \<^verbatim>\<open>columns\<close>, \<^verbatim>\<open>fields\<close>, \<^verbatim>\<open>colId\<close>). The prototype of no JSON value (\<^verbatim>\<open>Object\<close>,
  \<^verbatim>\<open>Array\<close>, \<^verbatim>\<open>String\<close>, \<^verbatim>\<open>Number\<close>, \<^verbatim>\<open>Boolean\<close>) has a member of such a name, so the
  read finds an own property or nothing. Reading a property of null or undefined raises
  TypeError.
\<close>

definition get_prop :: "heap \<Rightarrow> jsval \<Rightarrow> string \<Rightarrow> thrown + jsval" where
  "get_prop h v key =
     (if v = JNull \<or> v = JUndefined
      then Inl (TypeError ''Cannot read properties of null or undefined'')
      else Inr (get_own (resolve h v) key))"

text \<open>
  \<^verbatim>\<open>record[key]\<close> on a plain object, for any key: the own property when there is one,
  otherwise the member of that name of \<^verbatim>\<open>Object.prototype\<close>, otherwise undefined.
  \<^verbatim>\<open>Object.prototype\<close> holds \<^verbatim>\<open>constructor\<close> (the function \<^verbatim>\<open>Object\<close>), the accessor
  \<^verbatim>\<open>__proto__\<close> (which gives the prototype of the object, \<^verbatim>\<open>Object.prototype\<close> itself)
  and ten methods.
\<close>

definition object_prototype_methods :: "string list" where
  "object_prototype_methods =
     [''__defineGetter__'', ''__defineSetter__'', ''hasOwnProperty'', ''__lookupGetter__'',
      ''__lookupSetter__'', ''isPrototypeOf'', ''propertyIsEnumerable'', ''toString'',
      ''valueOf'', ''toLocaleString'']"

definition object_member :: "(string \<times> jsval) list \<Rightarrow> string \<Rightarrow> anyval" where
  "object_member ps key =
     (case map_of ps key of
        Some v \<Rightarrow> Data v
      | None \<Rightarrow>
          (if key = ''constructor'' then Builtin_function ''Object''
           else if key = ''__proto__'' then Builtin_object ''Object.prototype''
           else if key \<in> set object_prototype_methods then Builtin_function key
           else Data JUndefined))"

text \<open>
  The accessors \<^verbatim>\<open>caller\<close> and \<^verbatim>\<open>arguments\<close> of \<^verbatim>\<open>Function.prototype\<close>, which every
  built-in function inherits, raise TypeError whenever they are read.
\<close>

definition restricted_property :: thrown where
  "restricted_property =
     TypeError (CHR 0x27 # ''caller', 'callee', and 'arguments' properties may not be accessed on strict mode functions or the arguments objects for calls to them'')"

definition engine_read :: "js_error + anyval \<Rightarrow> thrown + anyval" where
  "engine_read r = (case r of Inl e \<Rightarrow> Inl (Thrown_Error e) | Inr v \<Rightarrow> Inr v)"

text \<open>
  \<^verbatim>\<open>current[key]\<close> for a value that is neither null nor undefined: an own property
  first, then the prototype chain. A plain object is read as above; a built-in function
  has its \<^verbatim>\<open>name\<close> and the two restricted accessors; every other read is the engine's.
\<close>

definition read_property :: "platform \<Rightarrow> heap \<Rightarrow> anyval \<Rightarrow> string \<Rightarrow> thrown + anyval" where
  "read_property P h current key = (case current of
       Data v \<Rightarrow>
         (case resolve h v of
            JObj ps \<Rightarrow> Inr (object_member ps key)
          | c \<Rightarrow> (if has_own c key then Inr (Data (get_own c key))
                  else engine_read (builtin_member P (Data c) key)))
     | Builtin_function n \<Rightarrow>
         (if key = ''name'' then Inr (Data (JStr n))
          else if key = ''caller'' \<or> key = ''arguments'' then Inl restricted_property
          else engine_read (builtin_member P current key))
     | Builtin_object n \<Rightarrow> engine_read (builtin_member P current key))"

definition nullish :: "anyval \<Rightarrow> bool" where
  "nullish current = (current = Data JNull \<or> current = Data JUndefined)"

text \<open>\<^verbatim>\<open>current[key]\<close>: reading a property of null or undefined raises TypeError.\<close>

definition get_member :: "platform \<Rightarrow> heap \<Rightarrow> anyval \<Rightarrow> string \<Rightarrow> thrown + anyval" where
  "get_member P h current key =
     (if nullish current
      then Inl (TypeError ''Cannot read properties of null or undefined'')
      else read_property P h current key)"

text \<open>\<^verbatim>\<open>typeof\<close> of what a read found.\<close>

definition typeof_any :: "heap \<Rightarrow> anyval \<Rightarrow> string" where
  "typeof_any h current = (case current of
       Data v \<Rightarrow> typeof h v
     | Builtin_function n \<Rightarrow> ''function''
     | Builtin_object n \<Rightarrow> ''object'')"

text \<open>
  \<^verbatim>\<open>obj[key] = v\<close> on a plain object. An existing property keeps its place; a new array
  index goes among the indices, in ascending order, before every other key; any other new
  key goes last. Assigning \<^verbatim>\<open>__proto__\<close> sets or ignores the prototype and creates no own
  property.
\<close>

definition index_below :: "nat \<Rightarrow> string \<times> 'a \<Rightarrow> bool" where
  "index_below i p = (case index_of_key (fst p) of Some j \<Rightarrow> j < i | None \<Rightarrow> False)"

definition set_prop :: "(string \<times> 'a) list \<Rightarrow> string \<Rightarrow> 'a \<Rightarrow> (string \<times> 'a) list" where
  "set_prop ps key v =
     (if key = ''__proto__'' then ps
      else if key \<in> fst ` set ps then map (\<lambda>p. if fst p = key then (key, v) else p) ps
      else case index_of_key key of
             None \<Rightarrow> ps @ [(key, v)]
           | Some i \<Rightarrow> takeWhile (index_below i) ps @ (key, v) # dropWhile (index_below i) ps)"

subsection \<open>Strings\<close>

text \<open>\<^verbatim>\<open>s.split(c)\<close> for a one-character separator: the empty string gives one empty piece.\<close>

fun split_on :: "char \<Rightarrow> string \<Rightarrow> string list" where
  "split_on c [] = [[]]"
| "split_on c (x # xs) =
     (if x = c then [] # split_on c xs
      else case split_on c xs of
             y # ys \<Rightarrow> (x # y) # ys
           | [] \<Rightarrow> [[x]])"

text \<open>\<^verbatim>\<open>pieces.join(sep)\<close>.\<close>

fun join :: "string \<Rightarrow> string list \<Rightarrow> string" where
  "join sep [] = []"
| "join sep [s] = s"
| "join sep (s # t # ts) = s @ sep @ join sep (t # ts)"

fun starts_with :: "string \<Rightarrow> string \<Rightarrow> bool" where
  "starts_with s [] = True"
| "starts_with [] (c # cs) = False"
| "starts_with (x # xs) (c # cs) = (x = c \<and> starts_with xs cs)"

text \<open>\<^verbatim>\<open>s.includes(sub)\<close>.\<close>

fun str_includes :: "string \<Rightarrow> string \<Rightarrow> bool" where
  "str_includes [] sub = (sub = [])"
| "str_includes (x # xs) sub = (starts_with (x # xs) sub \<or> str_includes xs sub)"

text \<open>Running a function that may throw over a list, left to right, up to the first throw.\<close>

fun traverse :: "('a \<Rightarrow> thrown + 'b) \<Rightarrow> 'a list \<Rightarrow> thrown + 'b list" where
  "traverse f [] = Inr []"
| "traverse f (x # xs) =
     (case f x of
        Inl e \<Rightarrow> Inl e
      | Inr y \<Rightarrow> (case traverse f xs of Inl e \<Rightarrow> Inl e | Inr ys \<Rightarrow> Inr (y # ys)))"

lemma traverse_cong [fundef_cong]:
  "xs = ys \<Longrightarrow> (\<And>x. x \<in> set ys \<Longrightarrow> f x = g x) \<Longrightarrow> traverse f xs = traverse g ys"
  by (induction ys arbitrary: xs) (auto split: sum.splits)

section \<open>The platform's JSON.stringify\<close>

text \<open>
  \<^verbatim>\<open>QuoteJSONString\<close>: the double quote and the backslash are escaped, the control
  characters below \<open>0x20\<close> are written with their short escape or as \<^verbatim>\<open>\u00XX\<close>.
\<close>

definition hex_digit :: "nat \<Rightarrow> char" where
  "hex_digit d = (if d < 10 then char_of (48 + d) else char_of (87 + d))"

definition quote_char :: "char \<Rightarrow> string" where
  "quote_char c =
     (let n = (of_char c :: nat) in
      if n = 34 then [char_of (92::nat), char_of (34::nat)]
      else if n = 92 then [char_of (92::nat), char_of (92::nat)]
      else if n = 8 then [char_of (92::nat), CHR ''b'']
      else if n = 9 then [char_of (92::nat), CHR ''t'']
      else if n = 10 then [char_of (92::nat), CHR ''n'']
      else if n = 12 then [char_of (92::nat), CHR ''f'']
      else if n = 13 then [char_of (92::nat), CHR ''r'']
      else if n < 32 then [char_of (92::nat), CHR ''u'', CHR ''0'', CHR ''0'',
                           hex_digit (n div 16), hex_digit (n mod 16)]
      else [c])"

definition quote :: "string \<Rightarrow> string" where
  "quote s = [char_of (34::nat)] @ concat (map quote_char s) @ [char_of (34::nat)]"

text \<open>
  The TypeError of \<^verbatim>\<open>JSON.stringify\<close> on a circular structure. The text is the first line
  of the engine's message, which goes on to name the constructor of the object and the
  properties that close the circle.
\<close>

definition cyclic_error :: thrown where
  "cyclic_error = TypeError ''Converting circular structure to JSON''"

text \<open>
  \<^verbatim>\<open>JSON.stringify\<close> keeps the stack of the objects it is inside of and raises TypeError
  when it meets one of them again. Here the heap passed down loses the cell that is
  entered, so a reference to a cell that is no longer there is a reference to an enclosing
  object (or a dangling one, which no JavaScript value has). The result \<open>None\<close> is
  \<^verbatim>\<open>undefined\<close>: an undefined member is left out of an object and written \<^verbatim>\<open>null\<close> in
  an array. A date is written through its \<^verbatim>\<open>toJSON\<close>.
\<close>

definition drop_cell :: "nat \<Rightarrow> heap \<Rightarrow> heap" where
  "drop_cell a h = filter (\<lambda>c. fst c \<noteq> a) h"

lemma drop_cell_shorter: "map_of h a = Some v \<Longrightarrow> length (drop_cell a h) < length h"
proof (induction h)
  case Nil
  then show ?case by simp
next
  case (Cons c h)
  have le: "length (filter (\<lambda>c. fst c \<noteq> a) h) \<le> length h"
    by (rule length_filter_le)
  show ?case
  proof (cases "fst c = a")
    case True
    with le show ?thesis by (simp add: drop_cell_def le_imp_less_Suc)
  next
    case False
    with Cons have "length (drop_cell a h) < length h" by (cases c) auto
    with False show ?thesis by (simp add: drop_cell_def)
  qed
qed

definition member_text :: "string \<times> string option \<Rightarrow> string list" where
  "member_text m = (case snd m of None \<Rightarrow> [] | Some t \<Rightarrow> [quote (fst m) @ '':'' @ t])"

definition element_text :: "string option \<Rightarrow> string" where
  "element_text t = (case t of None \<Rightarrow> ''null'' | Some s \<Rightarrow> s)"

function JSON_stringify :: "platform \<Rightarrow> heap \<Rightarrow> jsval \<Rightarrow> thrown + string option" where
  "JSON_stringify P h JUndefined = Inr None"
| "JSON_stringify P h JNull = Inr (Some ''null'')"
| "JSON_stringify P h (JBool b) = Inr (Some (if b then ''true'' else ''false''))"
| "JSON_stringify P h (JNum n) =
     Inr (Some (case n of Finite q \<Rightarrow> num_to_string P n | _ \<Rightarrow> ''null''))"
| "JSON_stringify P h (JStr s) = Inr (Some (quote s))"
| "JSON_stringify P h (JDate t) =
     Inr (Some (case t of None \<Rightarrow> ''null'' | Some ms \<Rightarrow> quote (date_to_iso P ms)))"
| "JSON_stringify P h (JArr xs) =
     (case traverse (JSON_stringify P h) xs of
        Inl e \<Rightarrow> Inl e
      | Inr ts \<Rightarrow> Inr (Some (''['' @ join '','' (map element_text ts) @ '']'')))"
| "JSON_stringify P h (JObj ps) =
     (case traverse (\<lambda>p. JSON_stringify P h (snd p)) ps of
        Inl e \<Rightarrow> Inl e
      | Inr ts \<Rightarrow>
          Inr (Some (''{'' @ join '','' (concat (map member_text (zip (map fst ps) ts))) @ ''}'')))"
| "JSON_stringify P h (JRef a) =
     (case map_of h a of
        None \<Rightarrow> Inl cyclic_error
      | Some c \<Rightarrow> JSON_stringify P (drop_cell a h) c)"
  by pat_completeness auto
termination
proof (relation "measures [\<lambda>(P, h, v). length h, \<lambda>(P, h, v). size v]")
  show "wf (measures [\<lambda>(P, h, v). length h, \<lambda>(P, h, v). size v])" by simp
next
  fix P :: platform and h :: heap and xs :: "jsval list" and x :: jsval
  assume "x \<in> set xs"
  then have "size x < Suc (size_list size xs)"
    by (induction xs) auto
  then show "((P, h, x), (P, h, JArr xs)) \<in> measures [\<lambda>(P, h, v). length h, \<lambda>(P, h, v). size v]"
    by simp
next
  fix P :: platform and h :: heap and ps :: "(string \<times> jsval) list" and p :: "string \<times> jsval"
  assume "p \<in> set ps"
  then have "size (snd p) < Suc (size_list (\<lambda>x. Suc (size (snd x))) ps)"
    by (induction ps) auto
  then show "((P, h, snd p), (P, h, JObj ps)) \<in> measures [\<lambda>(P, h, v). length h, \<lambda>(P, h, v). size v]"
    by (simp add: size_prod_simp)
next
  fix P :: platform and h :: heap and a :: nat and c :: jsval
  assume "map_of h a = Some c"
  then show "((P, drop_cell a h, c), (P, h, JRef a)) \<in> measures [\<lambda>(P, h, v). length h, \<lambda>(P, h, v). size v]"
    by (simp add: drop_cell_shorter)
qed

section \<open>The mapping utilities\<close>

subsection \<open>serializeValue\<close>

text \<open>\<^verbatim>\<open>String(item)\<close> for an item that is null, not an object, or a date.\<close>

definition String :: "platform \<Rightarrow> jsval \<Rightarrow> string" where
  "String P c = (case c of
       JUndefined \<Rightarrow> ''undefined''
     | JNull \<Rightarrow> ''null''
     | JBool b \<Rightarrow> (if b then ''true'' else ''false'')
     | JNum n \<Rightarrow> num_to_string P n
     | JStr s \<Rightarrow> s
     | JDate t \<Rightarrow> date_to_string P t
     | _ \<Rightarrow> [])"

text \<open>\<^verbatim>\<open>date.toISOString()\<close>: RangeError on the invalid date.\<close>

definition toISOString :: "platform \<Rightarrow> int option \<Rightarrow> thrown + string" where
  "toISOString P t = (case t of
       None \<Rightarrow> Inl (RangeError ''Invalid time value'')
     | Some ms \<Rightarrow> Inr (date_to_iso P ms))"

text \<open>The callback of \<^verbatim>\<open>value.map\<close> in \<^verbatim>\<open>serializeValue\<close>.\<close>

definition serializeItem :: "platform \<Rightarrow> heap \<Rightarrow> jsval \<Rightarrow> thrown + string" where
  "serializeItem P h item =
     (if item \<noteq> JNull \<and> typeof h item = ''object'' \<and> \<not> isDate h item
      then (case JSON_stringify P h item of
              Inl e \<Rightarrow> Inl e
            | Inr t \<Rightarrow> Inr (case t of Some s \<Rightarrow> s | None \<Rightarrow> []))
      else Inr (String P (resolve h item)))"

definition serializeValue :: "platform \<Rightarrow> heap \<Rightarrow> jsval \<Rightarrow> thrown + jsval" where
  "serializeValue P h v =
     (if v = JNull \<or> v = JUndefined then Inr v
      else case resolve h v of
          JDate t \<Rightarrow> (case toISOString P t of Inl e \<Rightarrow> Inl e | Inr s \<Rightarrow> Inr (JStr s))
        | JArr items \<Rightarrow>
            (if length items = 0 then Inr (JStr [])
             else case traverse (serializeItem P h) items of
                    Inl e \<Rightarrow> Inl e
                  | Inr ts \<Rightarrow> Inr (JStr (join '';'' ts)))
        | JObj ps \<Rightarrow>
            (case JSON_stringify P h v of
               Inl e \<Rightarrow> Inl e
             | Inr t \<Rightarrow> Inr (case t of Some s \<Rightarrow> JStr s | None \<Rightarrow> JUndefined))
        | _ \<Rightarrow> Inr v)"

subsection \<open>getNestedValue\<close>

text \<open>The \<^verbatim>\<open>for (const key of keys)\<close> loop, \<open>current\<close> being the value reached so far.\<close>

fun getNestedValue_loop ::
  "platform \<Rightarrow> heap \<Rightarrow> anyval \<Rightarrow> string list \<Rightarrow> thrown + anyval" where
  "getNestedValue_loop P h current [] = Inr current"
| "getNestedValue_loop P h current (key # keys) =
     (if current = Data JNull \<or> current = Data JUndefined then Inr (Data JUndefined)
      else case get_member P h current key of
             Inl e \<Rightarrow> Inl e
           | Inr next_value \<Rightarrow> getNestedValue_loop P h next_value keys)"

definition getNestedValue :: "platform \<Rightarrow> heap \<Rightarrow> jsval \<Rightarrow> string \<Rightarrow> thrown + anyval" where
  "getNestedValue P h obj path =
     (if path = [] \<or> falsy obj then Inr (Data JUndefined)
      else getNestedValue_loop P h (Data obj) (split_on CHR ''.'' path))"

text \<open>
  The contract's words, for comparison: the value reached by walking the keys one at a
  time, each key read as a property of the value in hand; undefined from the moment the
  value in hand is null or undefined while a key is still to be read.
\<close>

fun walk_spec :: "platform \<Rightarrow> heap \<Rightarrow> anyval \<Rightarrow> string list \<Rightarrow> thrown + anyval" where
  "walk_spec P h v [] = Inr v"
| "walk_spec P h v (k # ks) =
     (if nullish v then Inr (Data JUndefined)
      else case read_property P h v k of
             Inl e \<Rightarrow> Inl e
           | Inr w \<Rightarrow> walk_spec P h w ks)"

subsection \<open>transformRecord\<close>

text \<open>
  A mapping of the table. \<open>enabled\<close> is optional, and so is \<open>transform\<close>, a function that
  may throw.
\<close>

record FieldMapping =
  gristColumn :: string
  apiField :: string
  enabled :: "bool option"
  transform :: "(anyval \<Rightarrow> thrown + anyval) option"

text \<open>
  \<open>serializeValue\<close> on what \<open>getNestedValue\<close> returned. A function is neither null, nor
  a date, nor an array, nor an object for \<^verbatim>\<open>typeof\<close>: it is returned as it is.
\<close>

definition serializeValue_any :: "platform \<Rightarrow> heap \<Rightarrow> anyval \<Rightarrow> thrown + anyval" where
  "serializeValue_any P h v = (case v of
       Data d \<Rightarrow> (case serializeValue P h d of Inl e \<Rightarrow> Inl e | Inr r \<Rightarrow> Inr (Data r))
     | Builtin_function n \<Rightarrow> Inr (Builtin_function n)
     | Builtin_object n \<Rightarrow>
         (case builtin_serialized P n of
            Inl e \<Rightarrow> Inl (Thrown_Error e)
          | Inr r \<Rightarrow> Inr (Data r)))"

text \<open>
  The \<^verbatim>\<open>for (const mapping of mappings)\<close> loop; \<open>gristRecord\<close> is the record built so
  far. An empty string is falsy, and \<^verbatim>\<open>mapping.enabled === false\<close> holds for the
  boolean false only.
\<close>

fun transformRecord_loop ::
  "platform \<Rightarrow> heap \<Rightarrow> jsval \<Rightarrow> FieldMapping list \<Rightarrow> (string \<times> anyval) list
     \<Rightarrow> thrown + (string \<times> anyval) list" where
  "transformRecord_loop P h apiRecord [] gristRecord = Inr gristRecord"
| "transformRecord_loop P h apiRecord (mapping # mappings) gristRecord =
     (if gristColumn mapping = [] \<or> apiField mapping = []
      then transformRecord_loop P h apiRecord mappings gristRecord
      else if enabled mapping = Some False
      then transformRecord_loop P h apiRecord mappings gristRecord
      else case getNestedValue P h apiRecord (apiField mapping) of
             Inl e \<Rightarrow> Inl e
           | Inr v \<Rightarrow>
               (case (case transform mapping of
                        Some f \<Rightarrow> f v
                      | None \<Rightarrow> serializeValue_any P h v) of
                  Inl e \<Rightarrow> Inl e
                | Inr v' \<Rightarrow>
                    transformRecord_loop P h apiRecord mappings
                      (set_prop gristRecord (gristColumn mapping) v')))"

definition transformRecord ::
  "platform \<Rightarrow> heap \<Rightarrow> jsval \<Rightarrow> FieldMapping list \<Rightarrow> thrown + (string \<times> anyval) list" where
  "transformRecord P h apiRecord mappings = transformRecord_loop P h apiRecord mappings []"

text \<open>\<^verbatim>\<open>apiRecords.map(record => transformRecord(record, mappings))\<close> on an array.\<close>

definition transformRecords ::
  "platform \<Rightarrow> heap \<Rightarrow> jsval \<Rightarrow> FieldMapping list \<Rightarrow> thrown + (string \<times> anyval) list list" where
  "transformRecords P h apiRecords mappings =
     (case resolve h apiRecords of
        JArr records \<Rightarrow> traverse (\<lambda>r. transformRecord P h r mappings) records
      | _ \<Rightarrow> Inr [])"

definition isValidMapping :: "FieldMapping \<Rightarrow> bool" where
  "isValidMapping mapping = (gristColumn mapping \<noteq> [] \<and> apiField mapping \<noteq> [])"

definition getValidMappings :: "FieldMapping list \<Rightarrow> FieldMapping list" where
  "getValidMappings mappings = filter isValidMapping mappings"

text \<open>The keys of a record.\<close>

definition keys_of :: "(string \<times> 'a) list \<Rightarrow> string set" where
  "keys_of r = fst ` set r"

definition contributes :: "FieldMapping \<Rightarrow> bool" where
  "contributes m = (isValidMapping m \<and> enabled m \<noteq> Some False)"

subsection \<open>extractAllKeys and generateMappingsFromApiData\<close>

text \<open>
  The own enumerable properties \<^verbatim>\<open>for (const key in obj)\<close> visits: those of a plain
  object, the indices of an array, none for a date.
\<close>

definition entries :: "jsval \<Rightarrow> (string \<times> jsval) list" where
  "entries c = (case c of
       JObj ps \<Rightarrow> ps
     | JArr xs \<Rightarrow> zip (map show_nat [0..<length xs]) xs
     | _ \<Rightarrow> [])"

text \<open>
  \<^verbatim>\<open>obj.hasOwnProperty(key)\<close> calls whatever the name \<^verbatim>\<open>hasOwnProperty\<close> reads on the
  object. An own property of that name shadows the inherited method; no value of \<open>jsval\<close>
  is a function, so the call raises TypeError.
\<close>

definition shadows_hasOwnProperty :: "jsval \<Rightarrow> bool" where
  "shadows_hasOwnProperty c = (case c of
       JObj ps \<Rightarrow> map_of ps ''hasOwnProperty'' \<noteq> None
     | _ \<Rightarrow> False)"

definition not_a_function :: thrown where
  "not_a_function = TypeError ''obj.hasOwnProperty is not a function''"

definition is_nested_object :: "heap \<Rightarrow> jsval \<Rightarrow> bool" where
  "is_nested_object h v = (typeof h v = ''object'' \<and> v \<noteq> JNull \<and> \<not> isArray h v)"

definition child_path :: "string \<Rightarrow> string \<Rightarrow> string" where
  "child_path prefix key = (if prefix = [] then key else prefix @ ''.'' @ key)"

text \<open>
  \<open>extractAllKeys\<close> and its \<^verbatim>\<open>for (const key in obj)\<close> loop over the properties still to
  visit. \<open>maxDepth\<close> is a natural number (the default is 5); the loop carries
  \<open>maxDepth - 1\<close>, the depth it passes to the recursive calls.
\<close>

fun extractAllKeys :: "heap \<Rightarrow> jsval \<Rightarrow> string \<Rightarrow> nat \<Rightarrow> thrown + string list"
  and extractAllKeys_loop ::
    "heap \<Rightarrow> jsval \<Rightarrow> string \<Rightarrow> nat \<Rightarrow> (string \<times> jsval) list \<Rightarrow> thrown + string list" where
  "extractAllKeys h obj prefix 0 = Inr []"
| "extractAllKeys h obj prefix (Suc d) =
     (if falsy obj \<or> typeof h obj \<noteq> ''object'' then Inr []
      else extractAllKeys_loop h (resolve h obj) prefix d (entries (resolve h obj)))"
| "extractAllKeys_loop h c prefix d [] = Inr []"
| "extractAllKeys_loop h c prefix d ((key, v) # rest) =
     (if shadows_hasOwnProperty c then Inl not_a_function
      else case (if is_nested_object h v
                 then extractAllKeys h v (child_path prefix key) d
                 else Inr []) of
             Inl e \<Rightarrow> Inl e
           | Inr below \<Rightarrow>
               (case extractAllKeys_loop h c prefix d rest of
                  Inl e \<Rightarrow> Inl e
                | Inr others \<Rightarrow> Inr (child_path prefix key # below @ others)))"

text \<open>The table \<^verbatim>\<open>criticalColumns\<close> and \<^verbatim>\<open>apiField.replace(/\./g, '_')\<close>.\<close>

definition criticalColumns :: "string \<Rightarrow> string option" where
  "criticalColumns = map_of
     [(''id'', ''api_id''), (''createdAt'', ''createdAt''), (''updatedAt'', ''updatedAt'')]"

definition replace_dots :: "string \<Rightarrow> string" where
  "replace_dots s = map (\<lambda>c. if c = CHR ''.'' then CHR ''_'' else c) s"

text \<open>
  The callback of \<^verbatim>\<open>apiFields.map\<close>: \<^verbatim>\<open>criticalColumns.get(apiField) || ...\<close> (every
  entry of the table is a non-empty string, hence truthy).
\<close>

definition generatedMapping :: "bool \<Rightarrow> string \<Rightarrow> FieldMapping" where
  "generatedMapping defaultEnabled field =
     \<lparr>gristColumn = (case criticalColumns field of
                        Some c \<Rightarrow> c
                      | None \<Rightarrow> replace_dots field),
      apiField = field,
      enabled = Some defaultEnabled,
      transform = None\<rparr>"

definition generateMappingsFromApiData ::
  "heap \<Rightarrow> jsval \<Rightarrow> bool \<Rightarrow> thrown + FieldMapping list" where
  "generateMappingsFromApiData h sampleData defaultEnabled =
     (if falsy sampleData \<or> typeof h sampleData \<noteq> ''object'' then Inr []
      else case extractAllKeys h sampleData [] 5 of
             Inl e \<Rightarrow> Inl e
           | Inr apiFields \<Rightarrow> Inr (map (generatedMapping defaultEnabled) apiFields))"

section \<open>The error classifier\<close>

text \<open>
  The texts of the catalogue are French and carry pictographs. They are reproduced in
  ASCII: a letter loses its diacritic, and a pictograph is written as a tag in
  parentheses (the check mark as \<^verbatim>\<open>(v)\<close>, the warning sign as \<^verbatim>\<open>(!)\<close>, the light bulb as
  \<^verbatim>\<open>(i)\<close>, the magnifying glass as \<^verbatim>\<open>(?)\<close>, the plus sign as \<^verbatim>\<open>(+)\<close>, the check box as
  \<^verbatim>\<open>(ok)\<close>).
\<close>

datatype ErrorType =
    cors
  | network
  | unauthorized
  | forbidden
  | not_found
  | unprocessable
  | server_error
  | timeout
  | invalid_json
  | unknown

record ErrorInfo =
  type :: ErrorType
  title :: string
  message :: string
  explanation :: string
  solutions :: "string list"
  technicalDetails :: string

text \<open>
  \<^verbatim>\<open>String.prototype.toLowerCase\<close> on the Latin-1 range: the letters A to Z and the
  accented capitals \<open>0xC0\<close> to \<open>0xDE\<close> (the multiplication sign \<open>0xD7\<close> apart) move up by
  \<open>0x20\<close>.
\<close>

definition lower_table :: "(char \<times> char) list" where
  "lower_table = zip
     (''ABCDEFGHIJKLMNOPQRSTUVWXYZ'' @
      [CHR 0xC0, CHR 0xC1, CHR 0xC2, CHR 0xC3, CHR 0xC4, CHR 0xC5, CHR 0xC6, CHR 0xC7,
       CHR 0xC8, CHR 0xC9, CHR 0xCA, CHR 0xCB, CHR 0xCC, CHR 0xCD, CHR 0xCE, CHR 0xCF,
       CHR 0xD0, CHR 0xD1, CHR 0xD2, CHR 0xD3, CHR 0xD4, CHR 0xD5, CHR 0xD6,
       CHR 0xD8, CHR 0xD9, CHR 0xDA, CHR 0xDB, CHR 0xDC, CHR 0xDD, CHR 0xDE])
     (''abcdefghijklmnopqrstuvwxyz'' @
      [CHR 0xE0, CHR 0xE1, CHR 0xE2, CHR 0xE3, CHR 0xE4, CHR 0xE5, CHR 0xE6, CHR 0xE7,
       CHR 0xE8, CHR 0xE9, CHR 0xEA, CHR 0xEB, CHR 0xEC, CHR 0xED, CHR 0xEE, CHR 0xEF,
       CHR 0xF0, CHR 0xF1, CHR 0xF2, CHR 0xF3, CHR 0xF4, CHR 0xF5, CHR 0xF6,
       CHR 0xF8, CHR 0xF9, CHR 0xFA, CHR 0xFB, CHR 0xFC, CHR 0xFD, CHR 0xFE])"

definition lower_char :: "char \<Rightarrow> char" where
  "lower_char c = (case map_of lower_table c of Some l \<Rightarrow> l | None \<Rightarrow> c)"

definition toLowerCase :: "string \<Rightarrow> string" where
  "toLowerCase s = map lower_char s"

text \<open>
  \<open>isCorsError\<close> and \<open>isNetworkError\<close>. The message of an error is the empty string when
  it is absent; \<^verbatim>\<open>error.message?.toLowerCase() || ''\<close> is then the empty string too.
\<close>

definition isCorsError :: "js_error \<Rightarrow> bool" where
  "isCorsError error =
     (let message = toLowerCase (err_message error) in
        str_includes message ''cors''
      \<or> str_includes message ''cross-origin''
      \<or> str_includes message ''access-control-allow-origin''
      \<or> (err_name error = ''TypeError'' \<and> str_includes message ''failed to fetch'')
      \<or> (err_name error = ''TypeError'' \<and> str_includes message ''network request failed''))"

definition isNetworkError :: "js_error \<Rightarrow> bool" where
  "isNetworkError error =
     (let message = toLowerCase (err_message error) in
        (err_name error = ''TypeError'' \<and> \<not> isCorsError error)
      \<or> str_includes message ''network''
      \<or> str_includes message ''failed to fetch''
      \<or> str_includes message ''network request failed''
      \<or> str_includes message ''networkerror''
      \<or> str_includes message ''connection''
      \<or> str_includes message ''econnrefused''
      \<or> str_includes message ''offline'')"

text \<open>\<^verbatim>\<open>a || b\<close> on strings: the empty string is falsy.\<close>

definition or_else :: "string \<Rightarrow> string \<Rightarrow> string" where
  "or_else a b = (if a = [] then b else a)"

text \<open>\<^verbatim>\<open>Error.prototype.toString\<close>.\<close>

definition error_toString :: "js_error \<Rightarrow> string" where
  "error_toString error =
     (if err_name error = [] then err_message error
      else if err_message error = [] then err_name error
      else err_name error @ '': '' @ err_message error)"

text \<open>
  \<^verbatim>\<open>message.match(/HTTP (\d+)/)\<close>: the first place where \<^verbatim>\<open>HTTP\<close>, a space and a digit
  stand; the group is the longest run of digits there.
\<close>

fun match_HTTP_digits :: "string \<Rightarrow> string option" where
  "match_HTTP_digits [] = None"
| "match_HTTP_digits (c # cs) =
     (if starts_with (c # cs) ''HTTP '' \<and> takeWhile is_digit (drop 5 (c # cs)) \<noteq> []
      then Some (takeWhile is_digit (drop 5 (c # cs)))
      else match_HTTP_digits cs)"

text \<open>
  \<^verbatim>\<open>parseInt(match[1])\<close> is a number, that is a double: the one nearest to the integer
  that the digits denote, ties going to the even significand, and infinity from
  \<open>2^1024 - 2^970\<close> on. The status is carried as the integer itself. Up to \<open>2^53\<close> the
  double is that integer. Above, no double equals a code that the switch of
  \<open>analyzeHttpError\<close> names, and the text of the number inside a template literal is the
  text of the double: the shortest decimal numeral that rounds to it, written in full
  below \<open>10^21\<close> and with an exponent from there on.
\<close>

definition parseInt :: "string \<Rightarrow> nat" where
  "parseInt ds = digits_value ds"

fun bits :: "nat \<Rightarrow> nat" where
  "bits n = (if n = 0 then 0 else Suc (bits (n div 2)))"

declare bits.simps [simp del]

definition round_double :: "nat \<Rightarrow> nat" where
  "round_double n =
     (let e = bits n - 53; q = n div 2 ^ e; r = n mod 2 ^ e
      in if 2 ^ e < 2 * r \<or> (2 * r = 2 ^ e \<and> odd q) then (q + 1) * 2 ^ e else q * 2 ^ e)"

text \<open>
  The multiple of \<open>p\<close> nearest to the double \<open>d\<close> among those that round to \<open>d\<close>, if
  there is one; of two equally near, the one with the even last digit.
\<close>

definition nearest_multiple :: "nat \<Rightarrow> nat \<Rightarrow> nat option" where
  "nearest_multiple d p =
     (let lo = (d div p) * p; hi = lo + p
      in if round_double lo = d \<and> round_double hi = d
         then Some (if d - lo < hi - d then lo
                    else if hi - d < d - lo then hi
                    else if even (lo div p) then lo else hi)
         else if round_double lo = d then Some lo
         else if round_double hi = d then Some hi
         else None)"

text \<open>The shortest decimal numeral that rounds to \<open>d\<close>: seventeen digits always do.\<close>

definition shortest_decimal :: "nat \<Rightarrow> nat" where
  "shortest_decimal d =
     (case List.map_filter (\<lambda>k. nearest_multiple d (10 ^ (length (show_nat d) - k))) [1..<18] of
        c # cs \<Rightarrow> c
      | [] \<Rightarrow> d)"

definition strip_zeros :: "string \<Rightarrow> string" where
  "strip_zeros s = rev (dropWhile (\<lambda>c. c = CHR ''0'') (rev s))"

text \<open>\<^verbatim>\<open>`${status}`\<close> for the number that \<^verbatim>\<open>parseInt\<close> returned.\<close>

definition number_text :: "nat \<Rightarrow> string" where
  "number_text n =
     (if n \<le> 2 ^ 53 then show_nat n
      else let d = round_double n in
        if 2 ^ 1024 \<le> d then ''Infinity''
        else let c = shortest_decimal d;
                 s = strip_zeros (show_nat c);
                 e = length (show_nat c) - 1
             in if c < 10 ^ 21 then show_nat c
                else if length s = 1 then s @ ''e+'' @ show_nat e
                else hd s # ''.'' @ tl s @ ''e+'' @ show_nat e)"

definition analyzeHttpError :: "nat \<Rightarrow> js_error \<Rightarrow> string \<Rightarrow> ErrorInfo" where
  "analyzeHttpError status error context =
     (if status = 401 then
        \<lparr>type = unauthorized,
         title = ''401 - Non autorise'',
         message = ''Authentification requise ou token invalide'',
         explanation =
           (if context = ''grist_sync''
            then ''Le document Grist est prive et necessite un token API, ou votre token est invalide.''
            else ''L'API necessite une authentification que votre backend doit gerer.''),
         solutions =
           [if context = ''grist_sync''
            then ''(v) Ajoutez un token API Grist valide dans la configuration''
            else ''(v) Verifiez que votre backend gere correctement l'authentification'',
            ''(v) Verifiez que le token n'a pas expire'',
            ''(v) Verifiez les permissions du token''],
         technicalDetails = err_message error\<rparr>
      else if status = 403 then
        \<lparr>type = forbidden,
         title = ''403 - Acces interdit'',
         message = ''Permissions insuffisantes'',
         explanation =
           (if context = ''grist_sync''
            then ''Votre token API Grist n'a pas les permissions necessaires pour modifier ce document ou cette table.''
            else ''Votre backend ou l'API distante refuse l'acces a cette ressource.''),
         solutions =
           [''(v) Verifiez que vous avez les droits d'acces sur le document/table'',
            if context = ''grist_sync''
            then ''(v) Verifiez les permissions du token API dans les parametres Grist''
            else ''(v) Contactez l'administrateur de l'API pour obtenir les permissions'',
            ''(v) Assurez-vous que le token utilise est le bon''],
         technicalDetails = err_message error\<rparr>
      else if status = 404 then
        \<lparr>type = not_found,
         title = ''404 - Ressource introuvable'',
         message = ''Document, table ou URL introuvable'',
         explanation =
           (if context = ''grist_sync''
            then ''Le Document ID ou le Table ID specifie n'existe pas, ou l'URL de l'API Grist est incorrecte.''
            else ''L'URL du backend est incorrecte ou la ressource n'existe pas.''),
         solutions =
           [if context = ''grist_sync''
            then ''(v) Verifiez que le Document ID est correct (dans l'URL Grist)''
            else ''(v) Verifiez que l'URL du backend est correcte'',
            if context = ''grist_sync''
            then ''(v) Verifiez que le Table ID correspond exactement au nom de la table (sensible a la casse)''
            else ''(v) Verifiez que l'endpoint existe'',
            if context = ''grist_sync''
            then ''(v) Testez la connexion avec le bouton '' @ [CHR 0x22]
                   @ ''(?) Tester la connexion Grist'' @ [CHR 0x22]
            else ''(v) Testez l'URL dans un navigateur ou avec un outil comme Postman''],
         technicalDetails = err_message error\<rparr>
      else if status = 422 then
        \<lparr>type = unprocessable,
         title = ''422 - Donnees invalides'',
         message = ''Erreur de validation des donnees'',
         explanation = ''Les donnees envoyees ne respectent pas le format attendu par l'API.'',
         solutions =
           [''(v) Verifiez que les types de donnees correspondent (texte, nombre, date, etc.)'',
            ''(v) Verifiez que les colonnes Grist existent et sont correctement configurees'',
            ''(v) Verifiez le mapping des champs entre l'API et Grist'',
            ''(v) Consultez le journal de synchronisation pour plus de details''],
         technicalDetails = err_message error\<rparr>
      else if status = 500 \<or> status = 502 \<or> status = 503 \<or> status = 504 then
        \<lparr>type = server_error,
         title = show_nat status @ '' - Erreur serveur'',
         message = ''Le serveur a rencontre une erreur'',
         explanation =
           (if context = ''grist_sync''
            then ''Le serveur Grist a rencontre une erreur interne. Cela peut etre temporaire.''
            else ''Votre backend ou l'API distante a rencontre une erreur interne.''),
         solutions =
           [''(v) Reessayez dans quelques instants'',
            ''(v) Verifiez le statut du service (Grist ou votre backend)'',
            ''(v) Si le probleme persiste, contactez le support'',
            ''(v) Consultez les logs du serveur pour plus d'informations''],
         technicalDetails = err_message error\<rparr>
      else
        \<lparr>type = unknown,
         title = ''Erreur HTTP '' @ number_text status,
         message = ''Le serveur a renvoye une erreur '' @ number_text status,
         explanation = ''Une erreur HTTP inattendue s'est produite.'',
         solutions =
           [''(v) Consultez la documentation de l'API'',
            ''(v) Verifiez la console du navigateur pour plus de details'',
            ''(v) Contactez le support si necessaire''],
         technicalDetails = err_message error\<rparr>)"

text \<open>
  The status the third detector finds: the message is non-empty and includes
  \<^verbatim>\<open>HTTP\<close>, the pattern matches, and the digits are parsed. \<open>None\<close> when the detector
  falls through.
\<close>

definition http_status :: "string \<Rightarrow> nat option" where
  "http_status msg =
     (if msg \<noteq> [] \<and> str_includes msg ''HTTP''
      then (case match_HTTP_digits msg of
              Some ds \<Rightarrow> Some (parseInt ds)
            | None \<Rightarrow> None)
      else None)"

text \<open>
  \<open>analyzeError\<close> on an \<^verbatim>\<open>Error\<close> instance. The detectors are tried in the order of the
  source; the first that matches returns.
\<close>

definition analyzeError :: "js_error \<Rightarrow> string \<Rightarrow> ErrorInfo" where
  "analyzeError error context =
     (if isCorsError error then
        \<lparr>type = cors,
         title = ''Erreur CORS (Cross-Origin Resource Sharing)'',
         message = ''La requete a ete bloquee par la politique CORS du navigateur'',
         explanation =
           (if context = ''api_fetch''
            then ''Votre backend n'autorise pas les requetes depuis ce domaine. Les navigateurs bloquent les requetes cross-origin pour des raisons de securite.''
            else ''L'API Grist ou votre backend n'autorise pas les requetes depuis ce domaine.''),
         solutions =
           [''(v) Configurez votre backend pour autoriser les requetes CORS depuis ce domaine'',
            ''(v) Ajoutez les headers CORS appropries : Access-Control-Allow-Origin'',
            ''(v) Pour le developpement local, utilisez un proxy ou configurez votre serveur'',
            ''(!) Evitez d'utiliser des extensions pour desactiver CORS en production''],
         technicalDetails = or_else (err_message error) ''CORS policy violation''\<rparr>
      else if isNetworkError error then
        \<lparr>type = network,
         title = ''Erreur de connexion reseau'',
         message = ''Impossible de se connecter au serveur'',
         explanation = ''Le serveur est injoignable. Cela peut etre du a une connexion internet interrompue, une URL incorrecte, ou un serveur hors ligne.'',
         solutions =
           [''(v) Verifiez votre connexion internet'',
            ''(v) Verifiez que l'URL est correcte et accessible'',
            ''(v) Verifiez que le serveur est en ligne'',
            ''(v) Verifiez qu'il n'y a pas de pare-feu bloquant la connexion''],
         technicalDetails = or_else (err_message error) ''Network request failed''\<rparr>
      else case http_status (err_message error) of
        Some status \<Rightarrow> analyzeHttpError status error context
      | None \<Rightarrow>
      if err_message error \<noteq> []
              \<and> (str_includes (err_message error) ''JSON''
                   \<or> str_includes (err_message error) ''parse'') then
        \<lparr>type = invalid_json,
         title = ''Erreur de format de donnees'',
         message = ''La reponse du serveur n'est pas au format JSON valide'',
         explanation = ''Le serveur a renvoye des donnees qui ne peuvent pas etre interpretees comme du JSON.'',
         solutions =
           [''(v) Verifiez que l'URL pointe vers une API JSON'',
            ''(v) Verifiez que le serveur renvoie bien du JSON et non du HTML ou du texte'',
            ''(v) Consultez la console du navigateur (F12) pour voir la reponse brute''],
         technicalDetails = err_message error\<rparr>
      else if err_message error \<noteq> []
              \<and> str_includes (toLowerCase (err_message error)) ''timeout'' then
        \<lparr>type = timeout,
         title = ''Delai d'attente depasse'',
         message = ''Le serveur met trop de temps a repondre'',
         explanation = ''La requete a pris trop de temps et a ete annulee.'',
         solutions =
           [''(v) Verifiez que le serveur fonctionne correctement'',
            ''(v) Reessayez plus tard'',
            ''(v) Verifiez qu'il n'y a pas de probleme de performance cote serveur''],
         technicalDetails = err_message error\<rparr>
      else
        \<lparr>type = unknown,
         title = ''Erreur inattendue'',
         message = or_else (err_message error) ''Une erreur inconnue s'est produite'',
         explanation = ''Une erreur imprevue s'est produite. Consultez les details techniques ci-dessous.'',
         solutions =
           [''(v) Verifiez la console du navigateur (F12) pour plus de details'',
            ''(v) Reessayez l'operation'',
            ''(v) Contactez le support si le probleme persiste''],
         technicalDetails = or_else (err_stack error) (error_toString error)\<rparr>)"

text \<open>\<^verbatim>\<open>errorInfo.solutions[0]\<close> inside a template literal.\<close>

definition first_solution :: "ErrorInfo \<Rightarrow> string" where
  "first_solution errorInfo =
     (case solutions errorInfo of [] \<Rightarrow> ''undefined'' | s # rest \<Rightarrow> s)"

definition formatErrorShort :: "ErrorInfo \<Rightarrow> string" where
  "formatErrorShort errorInfo = message errorInfo @ '' - '' @ first_solution errorInfo"


section \<open>The Grist client\<close>

subsection \<open>Configuration, requests and the network\<close>

record GristConfig =
  docId :: string
  tableId :: string
  apiTokenGrist :: "string option"
  gristApiUrl :: "string option"
  autoCreateColumns :: "bool option"

datatype http_method = GET | POST

text \<open>
  A call of \<^verbatim>\<open>fetch\<close>. The body is kept as the value that \<^verbatim>\<open>JSON.stringify\<close> is applied
  to; on the wire it is the JSON text of that value.
\<close>

record request =
  req_method :: http_method
  req_url :: string
  req_headers :: "(string \<times> string) list"
  req_body :: "jsval option"

text \<open>
  A response: its status (an integer below \<open>2^16\<close>, which a template literal writes in
  full), and what \<^verbatim>\<open>response.text()\<close> and \<^verbatim>\<open>response.json()\<close> settle to. \<^verbatim>\<open>fetch\<close>
  rejects with a TypeError and the body readers reject with a TypeError or a SyntaxError:
  the failures of the transport are \<^verbatim>\<open>Error\<close> instances.
\<close>

record response =
  status :: nat
  text_body :: "js_error + string"
  json_body :: "js_error + jsval"

datatype fetch_result = Rejects js_error | Resolves response

text \<open>The network answers a request given the requests sent before it.\<close>

type_synonym net = "request list \<Rightarrow> request \<Rightarrow> fetch_result"

datatype log_type = log_info | log_success | log_error

text \<open>
  What a run of the client leaves behind: the calls of the \<open>onLog\<close> callback, the lines
  written with \<^verbatim>\<open>console.warn\<close>, and the requests sent, each in order.
\<close>

record effects =
  logged :: "(string \<times> log_type) list"
  warned :: "string list"
  sent :: "request list"

text \<open>The client: its configuration, and whether an \<open>onLog\<close> callback was given.\<close>

record GristClient =
  config :: GristConfig
  onLog :: bool

definition log_msg :: "GristClient \<Rightarrow> string \<Rightarrow> log_type \<Rightarrow> effects \<Rightarrow> effects" where
  "log_msg c msg t fx = (if onLog c then fx\<lparr>logged := logged fx @ [(msg, t)]\<rparr> else fx)"

definition console_warn :: "string \<Rightarrow> effects \<Rightarrow> effects" where
  "console_warn msg fx = fx\<lparr>warned := warned fx @ [msg]\<rparr>"

definition fetch :: "net \<Rightarrow> request \<Rightarrow> effects \<Rightarrow> fetch_result \<times> effects" where
  "fetch nw req fx = (nw (sent fx) req, fx\<lparr>sent := sent fx @ [req]\<rparr>)"

definition ok :: "response \<Rightarrow> bool" where
  "ok r = (200 \<le> status r \<and> status r \<le> 299)"

definition baseUrl :: "GristConfig \<Rightarrow> string" where
  "baseUrl cfg = (case gristApiUrl cfg of
       Some u \<Rightarrow> or_else u ''https://docs.getgrist.com''
     | None \<Rightarrow> ''https://docs.getgrist.com'')"


definition buildHeaders :: "GristConfig \<Rightarrow> (string \<times> string) list" where
  "buildHeaders cfg =
     (''Content-Type'', ''application/json'') #
     (case apiTokenGrist cfg of
        Some token \<Rightarrow> (if token = [] then [] else [(''Authorization'', ''Bearer '' @ token)])
      | None \<Rightarrow> [])"

text \<open>
  \<^verbatim>\<open>throw new Error(`Erreur HTTP ${response.status}: ${errorText}`)\<close> after
  \<^verbatim>\<open>await response.text()\<close>, which may itself reject.
\<close>

definition http_failure :: "response \<Rightarrow> thrown" where
  "http_failure r = (case text_body r of
       Inl e \<Rightarrow> Thrown_Error e
     | Inr errorText \<Rightarrow> new_Error (''Erreur HTTP '' @ show_nat (status r) @ '': '' @ errorText))"

subsection \<open>The catch blocks\<close>

text \<open>
  \<open>analyzeError\<close> reads \<^verbatim>\<open>error.message\<close> and calls \<^verbatim>\<open>toLowerCase\<close> on it. On a value
  that is not an \<^verbatim>\<open>Error\<close> instance this raises TypeError when the value is null or
  undefined, or when its \<^verbatim>\<open>message\<close> is neither a string nor null nor undefined.
\<close>

definition analyzeError_raises :: "jsval \<Rightarrow> thrown option" where
  "analyzeError_raises v =
     (if v = JNull \<or> v = JUndefined
      then Some (TypeError ''Cannot read properties of null or undefined'')
      else case get_own v ''message'' of
             JStr m \<Rightarrow> None
           | JUndefined \<Rightarrow> None
           | JNull \<Rightarrow> None
           | _ \<Rightarrow> Some (TypeError ''error.message.toLowerCase is not a function''))"

text \<open>
  What \<open>analyzeError\<close> reads of a value that is not an \<^verbatim>\<open>Error\<close> instance: its \<^verbatim>\<open>name\<close>
  and its \<^verbatim>\<open>message\<close> when they are strings (own properties: the prototype of no
  plain value has a member of either name). (\<^verbatim>\<open>stack\<close> and \<^verbatim>\<open>toString()\<close> feed
  \<open>technicalDetails\<close> only, which the client never reads; they are left empty.)
\<close>

definition error_view :: "jsval \<Rightarrow> js_error" where
  "error_view v =
     JsError (case get_own v ''name'' of JStr n \<Rightarrow> n | _ \<Rightarrow> [])
             (case get_own v ''message'' of JStr m \<Rightarrow> m | _ \<Rightarrow> [])
             []"

text \<open>\<^verbatim>\<open>const errorInfo = analyzeError(error, 'grist_sync')\<close> on the value caught.\<close>

definition analyze_caught :: "thrown \<Rightarrow> thrown + ErrorInfo" where
  "analyze_caught error = (case error of
       Thrown_Error e \<Rightarrow> Inr (analyzeError e ''grist_sync'')
     | Thrown_Other v \<Rightarrow>
         (case analyzeError_raises v of
            Some t \<Rightarrow> Inl t
          | None \<Rightarrow> Inr (analyzeError (error_view v) ''grist_sync'')))"

text \<open>
  The end of every catch block of the client:
  \<^verbatim>\<open>if (error instanceof Error) throw new Error(`${errorInfo.message} - ${errorInfo.solutions[0]}`); throw error;\<close>
\<close>

definition throw_classified :: "thrown \<Rightarrow> ErrorInfo \<Rightarrow> thrown" where
  "throw_classified error errorInfo = (case error of
       Thrown_Error e \<Rightarrow> new_Error (message errorInfo @ '' - '' @ first_solution errorInfo)
     | Thrown_Other v \<Rightarrow> Thrown_Other v)"

text \<open>The catch block of \<open>getRecords\<close> and \<open>getColumns\<close>.\<close>

definition rethrow :: "thrown \<Rightarrow> thrown" where
  "rethrow error = (case analyze_caught error of
       Inl t \<Rightarrow> t
     | Inr errorInfo \<Rightarrow> throw_classified error errorInfo)"

text \<open>
  The catch block of \<open>addRecords\<close> and \<open>addColumns\<close>, which logs the title, the message
  and the first solution before it rethrows.
\<close>

definition log_and_rethrow :: "GristClient \<Rightarrow> thrown \<Rightarrow> effects \<Rightarrow> thrown \<times> effects" where
  "log_and_rethrow c error fx = (case analyze_caught error of
       Inl t \<Rightarrow> (t, fx)
     | Inr errorInfo \<Rightarrow>
         (let fx1 = log_msg c (title errorInfo @ '': '' @ message errorInfo) log_error fx;
              fx2 = log_msg c (''(i) '' @ first_solution errorInfo) log_error fx1
          in (throw_classified error errorInfo, fx2)))"

subsection \<open>getRecords, getColumns, addColumns\<close>



definition columnsUrl :: "GristConfig \<Rightarrow> string" where
  "columnsUrl cfg =
     baseUrl cfg @ ''/api/docs/'' @ docId cfg @ ''/tables/'' @ tableId cfg @ ''/columns''"

definition list_columns_request :: "GristClient \<Rightarrow> request" where
  "list_columns_request c =
     \<lparr>req_method = GET, req_url = columnsUrl (config c),
      req_headers = buildHeaders (config c), req_body = None\<rparr>"

definition getColumns_try :: "GristClient \<Rightarrow> net \<Rightarrow> effects \<Rightarrow> (thrown + jsval) \<times> effects" where
  "getColumns_try c nw fx =
     (case fetch nw (list_columns_request c) fx of
        (Rejects e, fx') \<Rightarrow> (Inl (Thrown_Error e), fx')
      | (Resolves r, fx') \<Rightarrow>
          (if \<not> ok r then (Inl (http_failure r), fx')
           else case json_body r of
                  Inl e \<Rightarrow> (Inl (Thrown_Error e), fx')
                | Inr data \<Rightarrow>
                    (case get_prop [] data ''columns'' of
                       Inl e \<Rightarrow> (Inl e, fx')
                     | Inr cs \<Rightarrow> (Inr (if falsy cs then JArr [] else cs), fx'))))"

definition getColumns :: "GristClient \<Rightarrow> net \<Rightarrow> effects \<Rightarrow> (thrown + jsval) \<times> effects" where
  "getColumns c nw fx =
     (case getColumns_try c nw fx of
        (Inl error, fx') \<Rightarrow> (Inl (rethrow error), fx')
      | (Inr columns, fx') \<Rightarrow> (Inr columns, fx'))"

text \<open>A column to create: its id, and the optional label and type.\<close>

record column_spec =
  col_id :: string
  col_label :: "string option"
  col_type :: "string option"

definition column_body :: "column_spec \<Rightarrow> jsval" where
  "column_body col =
     JObj [(''id'', JStr (col_id col)),
           (''fields'', JObj
              [(''colId'', JStr (col_id col)),
               (''label'', JStr (case col_label col of
                                   Some l \<Rightarrow> or_else l (col_id col)
                                 | None \<Rightarrow> col_id col)),
               (''type'', JStr (case col_type col of
                                  Some t \<Rightarrow> or_else t ''Text''
                                | None \<Rightarrow> ''Text''))])]"

definition columns_request :: "GristClient \<Rightarrow> column_spec list \<Rightarrow> request" where
  "columns_request c columns =
     \<lparr>req_method = POST, req_url = columnsUrl (config c),
      req_headers = buildHeaders (config c),
      req_body = Some (JObj [(''columns'', JArr (map column_body columns))])\<rparr>"

text \<open>
  The body of \<open>addColumns\<close> holds strings only, which \<^verbatim>\<open>JSON.stringify\<close> always
  serializes.
\<close>

definition addColumns_try ::
  "GristClient \<Rightarrow> net \<Rightarrow> column_spec list \<Rightarrow> effects \<Rightarrow> (thrown + jsval) \<times> effects" where
  "addColumns_try c nw columns fx =
     (case fetch nw (columns_request c columns) fx of
        (Rejects e, fx') \<Rightarrow> (Inl (Thrown_Error e), fx')
      | (Resolves r, fx') \<Rightarrow>
          (if \<not> ok r then (Inl (http_failure r), fx')
           else case json_body r of
                  Inl e \<Rightarrow> (Inl (Thrown_Error e), fx')
                | Inr data \<Rightarrow> (Inr data, fx')))"

definition addColumns ::
  "GristClient \<Rightarrow> net \<Rightarrow> column_spec list \<Rightarrow> effects \<Rightarrow> (thrown + jsval) \<times> effects" where
  "addColumns c nw columns fx =
     (if length columns = 0 then (Inr (JObj [(''columns'', JArr [])]), fx)
      else case addColumns_try c nw columns fx of
             (Inl error, fx') \<Rightarrow>
               (case log_and_rethrow c error fx' of (t, fx'') \<Rightarrow> (Inl t, fx''))
           | (Inr data, fx') \<Rightarrow> (Inr data, fx'))"

subsection \<open>ensureColumnsExist and inferColumnType\<close>

text \<open>A record to insert: its columns and their values, in the order of \<^verbatim>\<open>Object.keys\<close>.\<close>

type_synonym grist_record = "(string \<times> jsval) list"

definition isInteger :: "jsnum \<Rightarrow> bool" where
  "isInteger n = (case n of Finite q \<Rightarrow> of_int (floor q) = q | _ \<Rightarrow> False)"

text \<open>\<^verbatim>\<open>/^\d{4}-\d{2}-\d{2}/.test(value)\<close>.\<close>

definition dateRegex_test :: "string \<Rightarrow> bool" where
  "dateRegex_test s =
     (10 \<le> length s
      \<and> list_all is_digit (take 4 s) \<and> s ! 4 = CHR ''-''
      \<and> list_all is_digit (take 2 (drop 5 s)) \<and> s ! 7 = CHR ''-''
      \<and> list_all is_digit (take 2 (drop 8 s)))"

text \<open>
  The loop of \<open>inferColumnType\<close> over \<^verbatim>\<open>records.slice(0, 10)\<close>. \<^verbatim>\<open>record[columnName]\<close>
  is the read of a key on a plain object, own or inherited.
\<close>

fun inferColumnType_loop :: "heap \<Rightarrow> grist_record list \<Rightarrow> string \<Rightarrow> string" where
  "inferColumnType_loop h [] columnName = ''Text''"
| "inferColumnType_loop h (record # rest) columnName =
     (let v = object_member record columnName in
      if v = Data JNull \<or> v = Data JUndefined then inferColumnType_loop h rest columnName
      else if typeof_any h v = ''number''
      then (case v of
              Data (JNum n) \<Rightarrow> (if isInteger n then ''Int'' else ''Numeric'')
            | _ \<Rightarrow> ''Numeric'')
      else if typeof_any h v = ''boolean'' then ''Bool''
      else if typeof_any h v = ''string''
              \<and> (case v of Data (JStr s) \<Rightarrow> dateRegex_test s | _ \<Rightarrow> False) then ''DateTime''
      else ''Text'')"

definition inferColumnType :: "heap \<Rightarrow> grist_record list \<Rightarrow> string \<Rightarrow> string" where
  "inferColumnType h records columnName = inferColumnType_loop h (take 10 records) columnName"

text \<open>
  \<^verbatim>\<open>existingColumns.map(col => col.fields.colId)\<close>: TypeError when the value is not an
  array, or when a column or its \<^verbatim>\<open>fields\<close> is null or undefined.
\<close>

definition column_ids :: "jsval \<Rightarrow> thrown + jsval list" where
  "column_ids existingColumns = (case existingColumns of
       JArr cols \<Rightarrow>
         traverse (\<lambda>col. case get_prop [] col ''fields'' of
                            Inl e \<Rightarrow> Inl e
                          | Inr col_fields \<Rightarrow> get_prop [] col_fields ''colId'') cols
     | _ \<Rightarrow> Inl (TypeError ''existingColumns.map is not a function''))"

text \<open>
  The two loops that fill the set \<open>requiredColumns\<close>: a set keeps the order of first
  insertion.
\<close>

definition add_key :: "string list \<Rightarrow> string \<Rightarrow> string list" where
  "add_key ks k = (if k \<in> set ks then ks else ks @ [k])"

definition requiredColumns :: "grist_record list \<Rightarrow> string list" where
  "requiredColumns records = foldl (\<lambda>ks record. foldl add_key ks (map fst record)) [] records"

definition missingColumns :: "jsval list \<Rightarrow> grist_record list \<Rightarrow> string list" where
  "missingColumns existingColumnIds records =
     filter (\<lambda>col. JStr col \<notin> set existingColumnIds) (requiredColumns records)"

definition columnsToCreate :: "heap \<Rightarrow> grist_record list \<Rightarrow> string list \<Rightarrow> column_spec list" where
  "columnsToCreate h records missing =
     map (\<lambda>id. \<lparr>col_id = id, col_label = Some id,
                 col_type = Some (inferColumnType h records id)\<rparr>) missing"

text \<open>The body of the \<^verbatim>\<open>try\<close> block of \<open>ensureColumnsExist\<close>.\<close>

definition ensureColumnsExist_try ::
  "GristClient \<Rightarrow> net \<Rightarrow> heap \<Rightarrow> grist_record list \<Rightarrow> effects \<Rightarrow> (thrown + unit) \<times> effects" where
  "ensureColumnsExist_try c nw h records fx =
     (let fx1 = log_msg c ''(?) Verification des colonnes existantes...'' log_info fx in
      case getColumns c nw fx1 of
        (Inl e, fx2) \<Rightarrow> (Inl e, fx2)
      | (Inr existingColumns, fx2) \<Rightarrow>
          (case column_ids existingColumns of
             Inl e \<Rightarrow> (Inl e, fx2)
           | Inr existingColumnIds \<Rightarrow>
               (let fx3 = log_msg c (''(v) '' @ show_nat (length existingColumnIds)
                                       @ '' colonne(s) existante(s) detectee(s)'') log_success fx2;
                    missing = missingColumns existingColumnIds records
                in if length missing > 0
                   then (let fx4 = log_msg c (''(+) Creation de '' @ show_nat (length missing)
                                                @ '' colonne(s) manquante(s): ''
                                                @ join '', '' missing) log_info fx3
                         in case addColumns c nw (columnsToCreate h records missing) fx4 of
                              (Inl e, fx5) \<Rightarrow> (Inl e, fx5)
                            | (Inr created, fx5) \<Rightarrow>
                                (Inr (), log_msg c ''(ok) Colonnes creees avec succes!''
                                           log_success fx5))
                   else (Inr (), log_msg c ''(v) Toutes les colonnes necessaires existent deja''
                                   log_success fx3))))"

text \<open>
  \<open>ensureColumnsExist\<close>: the \<^verbatim>\<open>catch\<close> block logs and warns when the value caught is an
  \<^verbatim>\<open>Error\<close> instance, and returns in either case.
\<close>

definition ensureColumnsExist ::
  "GristClient \<Rightarrow> net \<Rightarrow> heap \<Rightarrow> grist_record list \<Rightarrow> effects \<Rightarrow> (thrown + unit) \<times> effects" where
  "ensureColumnsExist c nw h records fx =
     (if length records = 0 then (Inr (), fx)
      else case ensureColumnsExist_try c nw h records fx of
             (Inl error, fx') \<Rightarrow>
               (case error of
                  Thrown_Error e \<Rightarrow>
                    (Inr (),
                     console_warn
                       (''Avertissement lors de la creation automatique des colonnes: ''
                          @ err_message e)
                       (log_msg c
                          (''(!) Avertissement lors de la creation automatique des colonnes: ''
                             @ err_message e) log_error fx'))
                | Thrown_Other v \<Rightarrow> (Inr (), fx'))
           | (Inr u, fx') \<Rightarrow> (Inr (), fx'))"

subsection \<open>addRecords\<close>






section \<open>Scenarios\<close>

text \<open>
  A client for the scenarios below, with an \<open>onLog\<close> callback, and the effects of a run
  that has not started.
\<close>

definition demo_client :: GristClient where
  "demo_client =
     \<lparr>config = \<lparr>docId = ''doc'', tableId = ''Table1'', apiTokenGrist = None,
                 gristApiUrl = None, autoCreateColumns = None\<rparr>,
      onLog = True\<rparr>"

definition no_effects :: effects where
  "no_effects = \<lparr>logged = [], warned = [], sent = []\<rparr>"

text \<open>A network that answers every request with the status 404 and the body \<^verbatim>\<open>not found\<close>.\<close>

definition answer_404 :: net where
  "answer_404 history req =
     Resolves \<lparr>status = 404, text_body = Inr ''not found'', json_body = Inr JNull\<rparr>"



subsection \<open>The scenario of ensureColumnsExist\<close>

text \<open>
  The scenario of the specification: the table has the column \<^verbatim>\<open>id\<close>, and the records
  carry \<^verbatim>\<open>id\<close> and \<^verbatim>\<open>score\<close>, whole numbers both.
\<close>

definition existing_id_only :: net where
  "existing_id_only history req =
     Resolves \<lparr>status = 200, text_body = Inr [],
               json_body = Inr (JObj [(''columns'', JArr
                 [JObj [(''id'', JStr ''id''),
                        (''fields'', JObj [(''label'', JStr ''id''), (''type'', JStr ''Int''),
                                           (''colId'', JStr ''id'')])]])])\<rparr>"

definition scored_records :: "grist_record list" where
  "scored_records =
     [[(''id'', JNum (Finite 1)), (''score'', JNum (Finite 10))],
      [(''id'', JNum (Finite 2)), (''score'', JNum (Finite 20))]]"

section \<open>Finite and acyclic values\<close>

text \<open>
  \<open>acyclic_within h n v\<close>: every chain of references that starts in \<open>v\<close> ends after at most
  \<open>n\<close> of them, and every reference points to a cell. Such a value is finite and nothing
  in it is reachable from itself; substructures may be shared. A value that holds a cycle
  satisfies it for no \<open>n\<close>. A value without references is a tree; a scalar is what a cell
  of the destination table holds.
\<close>

fun acyclic_within :: "heap \<Rightarrow> nat \<Rightarrow> jsval \<Rightarrow> bool" where
  "acyclic_within h 0 (JRef a) = False"
| "acyclic_within h (Suc n) (JRef a) =
     (case map_of h a of None \<Rightarrow> False | Some c \<Rightarrow> acyclic_within h n c)"
| "acyclic_within h n (JArr xs) = list_all (acyclic_within h n) xs"
| "acyclic_within h n (JObj ps) = list_all (\<lambda>p. acyclic_within h n (snd p)) ps"
| "acyclic_within h n v = True"

fun ref_free :: "jsval \<Rightarrow> bool" where
  "ref_free (JRef a) = False"
| "ref_free (JArr xs) = list_all ref_free xs"
| "ref_free (JObj ps) = list_all (\<lambda>p. ref_free (snd p)) ps"
| "ref_free v = True"

definition scalar :: "jsval \<Rightarrow> bool" where
  "scalar r = (case r of
       JUndefined \<Rightarrow> True | JNull \<Rightarrow> True | JBool b \<Rightarrow> True | JNum n \<Rightarrow> True | JStr s \<Rightarrow> True
     | _ \<Rightarrow> False)"

section \<open>Properties: the mapping utilities\<close>

subsection \<open>Properties: getNestedValue\<close>

lemma getNestedValue_loop_walk: "getNestedValue_loop P h v ks = walk_spec P h v ks"
  by (induction ks arbitrary: v) (simp_all add: get_member_def nullish_def split: sum.splits)

lemma walk_spec_undefined: "walk_spec P h (Data JUndefined) ks = Inr (Data JUndefined)"
  by (cases ks) (simp_all add: nullish_def)

lemma walk_spec_append:
  "walk_spec P h v (ks @ ks') =
     (case walk_spec P h v ks of Inl e \<Rightarrow> Inl e | Inr w \<Rightarrow> walk_spec P h w ks')"
  by (induction ks arbitrary: v) (simp_all add: walk_spec_undefined split: sum.splits)

lemma walk_spec_after_nullish: "nullish v \<Longrightarrow> walk_spec P h v (k # ks) = Inr (Data JUndefined)"
  by simp

lemma walk_spec_step_undefined:
  "\<not> nullish v \<Longrightarrow> read_property P h v k = Inr (Data JUndefined) \<Longrightarrow>
     walk_spec P h v (k # ks) = Inr (Data JUndefined)"
  by (simp add: walk_spec_undefined)

lemma read_property_absent:
  assumes "resolve h v = JObj ps" and "map_of ps k = None"
    and "k \<notin> set (''constructor'' # ''__proto__'' # object_prototype_methods)"
  shows "read_property P h (Data v) k = Inr (Data JUndefined)"
  using assms by (simp add: read_property_def object_member_def)

lemma not_nullish_object: "resolve h v = JObj ps \<Longrightarrow> \<not> nullish (Data v)"
  by (auto simp: nullish_def resolve_def)

text \<open>
  A read raises only off the own properties and off the plain objects: at a restricted
  accessor of a built-in function, or where the engine's read raises.
\<close>

lemma read_property_raises:
  assumes "read_property P h current k = Inl t"
  shows "(\<forall>v ps. current = Data v \<longrightarrow> resolve h v \<noteq> JObj ps)
         \<and> (\<forall>v. current = Data v \<longrightarrow> \<not> has_own (resolve h v) k)
         \<and> ((\<exists>n. current = Builtin_function n) \<and> (k = ''caller'' \<or> k = ''arguments'')
                \<and> t = restricted_property
             \<or> (\<exists>c e. builtin_member P c k = Inl e \<and> t = Thrown_Error e))"
proof (cases current)
  case (Data v)
  show ?thesis
  proof (cases "\<exists>ps. resolve h v = JObj ps")
    case True
    with assms Data show ?thesis by (auto simp: read_property_def)
  next
    case False
    then have rd: "read_property P h current k =
        (if has_own (resolve h v) k then Inr (Data (get_own (resolve h v) k))
         else engine_read (builtin_member P (Data (resolve h v)) k))"
      using Data by (cases "resolve h v") (simp_all add: read_property_def)
    with assms have no: "\<not> has_own (resolve h v) k"
      and eng: "engine_read (builtin_member P (Data (resolve h v)) k) = Inl t"
      by (auto split: if_splits)
    from eng obtain e where "builtin_member P (Data (resolve h v)) k = Inl e" and "t = Thrown_Error e"
      by (auto simp: engine_read_def split: sum.splits)
    with False no Data show ?thesis by auto
  qed
next
  case (Builtin_function n)
  show ?thesis
  proof (cases "k = ''caller'' \<or> k = ''arguments''")
    case True
    with assms Builtin_function have "t = restricted_property"
      by (auto simp: read_property_def)
    with True Builtin_function show ?thesis by simp
  next
    case False
    with assms Builtin_function
    have "engine_read (builtin_member P current k) = Inl t"
      by (auto simp: read_property_def split: if_splits)
    then obtain e where "builtin_member P current k = Inl e" and "t = Thrown_Error e"
      by (auto simp: engine_read_def split: sum.splits)
    with Builtin_function show ?thesis by auto
  qed
next
  case (Builtin_object n)
  with assms have "engine_read (builtin_member P current k) = Inl t"
    by (simp add: read_property_def)
  then obtain e where "builtin_member P current k = Inl e" and "t = Thrown_Error e"
    by (auto simp: engine_read_def split: sum.splits)
  with Builtin_object show ?thesis by auto
qed

text \<open>A walk that raises does so at the read of one of its keys.\<close>

lemma walk_spec_raises:
  "walk_spec P h v ks = Inl t \<Longrightarrow>
     \<exists>pre k post current. ks = pre @ k # post \<and> walk_spec P h v pre = Inr current
        \<and> \<not> nullish current \<and> read_property P h current k = Inl t"
proof (induction ks arbitrary: v)
  case Nil
  then show ?case by simp
next
  case (Cons k ks)
  from Cons.prems have nn: "\<not> nullish v" by (auto split: if_splits)
  show ?case
  proof (cases "read_property P h v k")
    case (Inl e)
    with Cons.prems nn have "e = t" by simp
    with Inl nn have "k # ks = [] @ k # ks \<and> walk_spec P h v [] = Inr v
        \<and> \<not> nullish v \<and> read_property P h v k = Inl t" by simp
    then show ?thesis by blast
  next
    case (Inr w)
    with Cons.prems nn have "walk_spec P h w ks = Inl t" by simp
    from Cons.IH [OF this] obtain pre k' post current where
      ks: "ks = pre @ k' # post" and wk: "walk_spec P h w pre = Inr current"
      and rest: "\<not> nullish current" "read_property P h current k' = Inl t" by blast
    from Inr nn wk have "walk_spec P h v (k # pre) = Inr current" by simp
    with ks rest have "k # ks = (k # pre) @ k' # post \<and> walk_spec P h v (k # pre) = Inr current
        \<and> \<not> nullish current \<and> read_property P h current k' = Inl t" by simp
    then show ?thesis by blast
  qed
qed

lemma getNestedValue_walk:
  "getNestedValue P h obj path =
     (if path = [] \<or> falsy obj then Inr (Data JUndefined)
      else walk_spec P h (Data obj) (split_on CHR ''.'' path))"
  by (simp add: getNestedValue_def getNestedValue_loop_walk)

lemma getNestedValue_undefined_from:
  assumes "split_on CHR ''.'' path = ks @ k # ks'"
    and "walk_spec P h (Data obj) ks = Inr current"
    and "walk_spec P h current (k # ks') = Inr (Data JUndefined)"
  shows "getNestedValue P h obj path = Inr (Data JUndefined)"
  using assms by (simp add: getNestedValue_walk walk_spec_append)

text \<open>
  C7, as the code has it: \<^verbatim>\<open>getNestedValue({}, "constructor.caller")\<close> throws. The
  empty record inherits \<^verbatim>\<open>constructor\<close>, the function \<^verbatim>\<open>Object\<close>, and reading
  \<^verbatim>\<open>caller\<close> on a built-in function raises TypeError; the loop has no guard around the
  read.
\<close>

theorem getNestedValue_restricted_counterexample:
  "\<forall>P. getNestedValue P [] (JObj []) ''constructor.caller''
         = Inl (TypeError (CHR 0x27 # ''caller', 'callee', and 'arguments' properties may not be accessed on strict mode functions or the arguments objects for calls to them''))"
  by (simp add: getNestedValue_def falsy_def get_member_def read_property_def resolve_def
      object_member_def nullish_def restricted_property_def)

text \<open>
  C7, amended. For every record and every dotted path, \<open>getNestedValue\<close> is undefined on
  the empty path and on a falsy record, and otherwise the value reached by splitting the
  path on the dot and walking the record one key at a time, each key read as JavaScript
  reads a property (own first, then inherited). It returns undefined as soon as the value
  in hand is null or undefined with a key still to read, or a key is absent (the read
  finds undefined; on a plain object, the key is no own property and no member of
  \<^verbatim>\<open>Object.prototype\<close>). It never raises for reading a property of null or undefined:
  when it throws, the exception is that of the read of a key that is not an own property,
  on a value in hand that is not a plain object: a restricted accessor (\<^verbatim>\<open>caller\<close>,
  \<^verbatim>\<open>arguments\<close>) of a built-in function, or a read that raises in the engine. The three
  examples of the contract evaluate as stated, and
  \<^verbatim>\<open>getNestedValue({}, "constructor.name")\<close> is the string \<^verbatim>\<open>Object\<close>.
\<close>

theorem getNestedValue_contract:
  "(path = [] \<or> falsy obj \<longrightarrow> getNestedValue P h obj path = Inr (Data JUndefined))
   \<and> (path \<noteq> [] \<and> \<not> falsy obj \<longrightarrow>
        getNestedValue P h obj path = walk_spec P h (Data obj) (split_on CHR ''.'' path))
   \<and> (\<forall>ks k ks' current. split_on CHR ''.'' path = ks @ k # ks'
          \<and> walk_spec P h (Data obj) ks = Inr current \<and> nullish current
        \<longrightarrow> getNestedValue P h obj path = Inr (Data JUndefined))
   \<and> (\<forall>ks k ks' current. split_on CHR ''.'' path = ks @ k # ks'
          \<and> walk_spec P h (Data obj) ks = Inr current \<and> \<not> nullish current
          \<and> read_property P h current k = Inr (Data JUndefined)
        \<longrightarrow> getNestedValue P h obj path = Inr (Data JUndefined))
   \<and> (\<forall>ks k ks' v ps. split_on CHR ''.'' path = ks @ k # ks'
          \<and> walk_spec P h (Data obj) ks = Inr (Data v)
          \<and> resolve h v = JObj ps \<and> map_of ps k = None
          \<and> k \<notin> set (''constructor'' # ''__proto__'' # object_prototype_methods)
        \<longrightarrow> getNestedValue P h obj path = Inr (Data JUndefined))
   \<and> (\<forall>t. getNestedValue P h obj path = Inl t \<longrightarrow>
        (\<exists>ks k ks' current. split_on CHR ''.'' path = ks @ k # ks'
            \<and> walk_spec P h (Data obj) ks = Inr current \<and> \<not> nullish current
            \<and> read_property P h current k = Inl t
            \<and> (\<forall>v ps. current = Data v \<longrightarrow> resolve h v \<noteq> JObj ps)
            \<and> (\<forall>v. current = Data v \<longrightarrow> \<not> has_own (resolve h v) k)
            \<and> ((\<exists>n. current = Builtin_function n) \<and> (k = ''caller'' \<or> k = ''arguments'')
                   \<and> t = restricted_property
                \<or> (\<exists>c e. builtin_member P c k = Inl e \<and> t = Thrown_Error e))))
   \<and> getNestedValue P [] (JObj [(''user'', JObj [(''name'', JStr ''Alice'')])]) ''user.name''
        = Inr (Data (JStr ''Alice''))
   \<and> getNestedValue P [] (JObj []) ''a.b.c'' = Inr (Data JUndefined)
   \<and> getNestedValue P [] JNull ''a'' = Inr (Data JUndefined)
   \<and> getNestedValue P [] (JObj []) ''constructor.name'' = Inr (Data (JStr ''Object''))"
proof (intro conjI allI impI)
  assume "path = [] \<or> falsy obj"
  then show "getNestedValue P h obj path = Inr (Data JUndefined)"
    by (auto simp: getNestedValue_def)
next
  assume "path \<noteq> [] \<and> \<not> falsy obj"
  then show "getNestedValue P h obj path = walk_spec P h (Data obj) (split_on CHR ''.'' path)"
    by (simp add: getNestedValue_walk)
next
  fix ks k ks' current
  assume a: "split_on CHR ''.'' path = ks @ k # ks'
          \<and> walk_spec P h (Data obj) ks = Inr current \<and> nullish current"
  then have "walk_spec P h current (k # ks') = Inr (Data JUndefined)" by simp
  with a show "getNestedValue P h obj path = Inr (Data JUndefined)"
    using getNestedValue_undefined_from [of path ks k ks' P h obj current] by blast
next
  fix ks k ks' current
  assume a: "split_on CHR ''.'' path = ks @ k # ks'
          \<and> walk_spec P h (Data obj) ks = Inr current \<and> \<not> nullish current
          \<and> read_property P h current k = Inr (Data JUndefined)"
  then have "walk_spec P h current (k # ks') = Inr (Data JUndefined)"
    by (simp add: walk_spec_undefined)
  with a show "getNestedValue P h obj path = Inr (Data JUndefined)"
    using getNestedValue_undefined_from [of path ks k ks' P h obj current] by blast
next
  fix ks k ks' v ps
  assume a: "split_on CHR ''.'' path = ks @ k # ks'
          \<and> walk_spec P h (Data obj) ks = Inr (Data v)
          \<and> resolve h v = JObj ps \<and> map_of ps k = None
          \<and> k \<notin> set (''constructor'' # ''__proto__'' # object_prototype_methods)"
  then have rd: "read_property P h (Data v) k = Inr (Data JUndefined)"
    using read_property_absent [of h v ps k P] by blast
  from a have nn: "\<not> nullish (Data v)" using not_nullish_object [of h v ps] by blast
  from rd nn have "walk_spec P h (Data v) (k # ks') = Inr (Data JUndefined)"
    by (rule walk_spec_step_undefined [rotated])
  with a show "getNestedValue P h obj path = Inr (Data JUndefined)"
    using getNestedValue_undefined_from [of path ks k ks' P h obj "Data v"] by blast
next
  fix t
  assume a: "getNestedValue P h obj path = Inl t"
  then have "walk_spec P h (Data obj) (split_on CHR ''.'' path) = Inl t"
    by (simp add: getNestedValue_walk split: if_splits)
  from walk_spec_raises [OF this] obtain ks k ks' current where
    sp: "split_on CHR ''.'' path = ks @ k # ks'"
    and wk: "walk_spec P h (Data obj) ks = Inr current"
    and nn: "\<not> nullish current" and rd: "read_property P h current k = Inl t" by blast
  note why = read_property_raises [OF rd]
  from sp wk nn rd why
  have "split_on CHR ''.'' path = ks @ k # ks'
            \<and> walk_spec P h (Data obj) ks = Inr current \<and> \<not> nullish current
            \<and> read_property P h current k = Inl t
            \<and> (\<forall>v ps. current = Data v \<longrightarrow> resolve h v \<noteq> JObj ps)
            \<and> (\<forall>v. current = Data v \<longrightarrow> \<not> has_own (resolve h v) k)
            \<and> ((\<exists>n. current = Builtin_function n) \<and> (k = ''caller'' \<or> k = ''arguments'')
                   \<and> t = restricted_property
                \<or> (\<exists>c e. builtin_member P c k = Inl e \<and> t = Thrown_Error e))"
    by (intro conjI) (rule sp wk nn rd why [THEN conjunct1] why [THEN conjunct2, THEN conjunct1]
        why [THEN conjunct2, THEN conjunct2])+
  then show "\<exists>ks k ks' current. split_on CHR ''.'' path = ks @ k # ks'
            \<and> walk_spec P h (Data obj) ks = Inr current \<and> \<not> nullish current
            \<and> read_property P h current k = Inl t
            \<and> (\<forall>v ps. current = Data v \<longrightarrow> resolve h v \<noteq> JObj ps)
            \<and> (\<forall>v. current = Data v \<longrightarrow> \<not> has_own (resolve h v) k)
            \<and> ((\<exists>n. current = Builtin_function n) \<and> (k = ''caller'' \<or> k = ''arguments'')
                   \<and> t = restricted_property
                \<or> (\<exists>c e. builtin_member P c k = Inl e \<and> t = Thrown_Error e))"
    by blast
next
  show "getNestedValue P [] (JObj [(''user'', JObj [(''name'', JStr ''Alice'')])]) ''user.name''
          = Inr (Data (JStr ''Alice''))"
    by (simp add: getNestedValue_def falsy_def get_member_def read_property_def resolve_def
        object_member_def nullish_def)
next
  show "getNestedValue P [] (JObj []) ''a.b.c'' = Inr (Data JUndefined)"
    by (simp add: getNestedValue_def falsy_def get_member_def read_property_def resolve_def
        object_member_def nullish_def object_prototype_methods_def)
next
  show "getNestedValue P [] JNull ''a'' = Inr (Data JUndefined)"
    by (simp add: getNestedValue_def falsy_def)
next
  show "getNestedValue P [] (JObj []) ''constructor.name'' = Inr (Data (JStr ''Object''))"
    by (simp add: getNestedValue_def falsy_def get_member_def read_property_def resolve_def
        object_member_def nullish_def)
qed

text \<open>
  The theorem at a record whose first key is absent, \<^verbatim>\<open>getNestedValue({b: 1}, "a.b")\<close>,
  and at the path \<^verbatim>\<open>constructor.caller\<close> on the empty record, where the read that
  raises is that of \<^verbatim>\<open>caller\<close> on the function \<^verbatim>\<open>Object\<close>.
\<close>

theorem getNestedValue_contract_witness:
  "\<forall>P. split_on CHR ''.'' ''a.b'' = [] @ ''a'' # [''b'']
     \<and> walk_spec P [] (Data (JObj [(''b'', JNum (Finite 1))])) []
         = Inr (Data (JObj [(''b'', JNum (Finite 1))]))
     \<and> resolve [] (JObj [(''b'', JNum (Finite 1))]) = JObj [(''b'', JNum (Finite 1))]
     \<and> map_of [(''b'', JNum (Finite 1))] ''a'' = None
     \<and> ''a'' \<notin> set (''constructor'' # ''__proto__'' # object_prototype_methods)
     \<and> getNestedValue P [] (JObj [(''b'', JNum (Finite 1))]) ''a.b'' = Inr (Data JUndefined)
     \<and> getNestedValue P [] (JObj []) ''constructor.caller'' = Inl restricted_property
     \<and> (\<exists>ks k ks' current. split_on CHR ''.'' ''constructor.caller'' = ks @ k # ks'
            \<and> walk_spec P [] (Data (JObj [])) ks = Inr current
            \<and> read_property P [] current k = Inl restricted_property)"
proof
  fix P
  let ?r = "JObj [(''b'', JNum (Finite 1))]"
  note contract = getNestedValue_contract [of _ _ P "[]"]
  have split: "split_on CHR ''.'' ''a.b'' = [] @ ''a'' # [''b'']" by simp
  have start: "walk_spec P [] (Data ?r) [] = Inr (Data ?r)" by simp
  have obj: "resolve [] ?r = ?r" by (simp add: resolve_def)
  have absent: "map_of [(''b'', JNum (Finite 1))] ''a'' = None" by simp
  have plain: "''a'' \<notin> set (''constructor'' # ''__proto__'' # object_prototype_methods)"
    by (simp add: object_prototype_methods_def)
  have hyps: "split_on CHR ''.'' ''a.b'' = [] @ ''a'' # [''b'']
          \<and> walk_spec P [] (Data ?r) [] = Inr (Data ?r)
          \<and> resolve [] ?r = JObj [(''b'', JNum (Finite 1))]
          \<and> map_of [(''b'', JNum (Finite 1))] ''a'' = None
          \<and> ''a'' \<notin> set (''constructor'' # ''__proto__'' # object_prototype_methods)"
    by (intro conjI split start obj absent plain)
  note undef = contract [of "''a.b''" ?r, THEN conjunct2, THEN conjunct2, THEN conjunct2,
      THEN conjunct2, THEN conjunct1, rule_format, OF hyps]
  have thrown: "getNestedValue P [] (JObj []) ''constructor.caller'' = Inl restricted_property"
    by (simp add: getNestedValue_def falsy_def get_member_def read_property_def resolve_def
        object_member_def nullish_def)
  note why = contract [of "''constructor.caller''" "JObj []", THEN conjunct2, THEN conjunct2,
      THEN conjunct2, THEN conjunct2, THEN conjunct2, THEN conjunct1, rule_format, OF thrown]
  from why obtain ks k ks' current where
    a: "split_on CHR ''.'' ''constructor.caller'' = ks @ k # ks'"
    and b: "walk_spec P [] (Data (JObj [])) ks = Inr current"
    and c: "\<not> nullish current"
    and d: "read_property P [] current k = Inl restricted_property"
    and e: "\<forall>v ps. current = Data v \<longrightarrow> resolve [] v \<noteq> JObj ps"
    and f: "\<forall>v. current = Data v \<longrightarrow> \<not> has_own (resolve [] v) k"
    and g: "(\<exists>n. current = Builtin_function n) \<and> (k = ''caller'' \<or> k = ''arguments'')
                   \<and> restricted_property = restricted_property
                \<or> (\<exists>c e. builtin_member P c k = Inl e \<and> restricted_property = Thrown_Error e)"
    by (elim exE conjE)
  have at_read: "\<exists>ks k ks' current. split_on CHR ''.'' ''constructor.caller'' = ks @ k # ks'
            \<and> walk_spec P [] (Data (JObj [])) ks = Inr current
            \<and> read_property P [] current k = Inl restricted_property"
    by (intro exI conjI) (rule a b d)+
  show "split_on CHR ''.'' ''a.b'' = [] @ ''a'' # [''b'']
     \<and> walk_spec P [] (Data ?r) [] = Inr (Data ?r)
     \<and> resolve [] ?r = JObj [(''b'', JNum (Finite 1))]
     \<and> map_of [(''b'', JNum (Finite 1))] ''a'' = None
     \<and> ''a'' \<notin> set (''constructor'' # ''__proto__'' # object_prototype_methods)
     \<and> getNestedValue P [] ?r ''a.b'' = Inr (Data JUndefined)
     \<and> getNestedValue P [] (JObj []) ''constructor.caller'' = Inl restricted_property
     \<and> (\<exists>ks k ks' current. split_on CHR ''.'' ''constructor.caller'' = ks @ k # ks'
            \<and> walk_spec P [] (Data (JObj [])) ks = Inr current
            \<and> read_property P [] current k = Inl restricted_property)"
    by (intro conjI split start obj absent plain undef thrown at_read)
qed

subsection \<open>Properties: transformRecord\<close>

lemma keys_of_set_prop: "keys_of (set_prop r k v) \<subseteq> insert k (keys_of r)"
proof (cases "k = ''__proto__''")
  case True
  then show ?thesis by (auto simp: set_prop_def)
next
  case False
  show ?thesis
  proof (cases "k \<in> fst ` set r")
    case True
    with False show ?thesis by (auto simp: set_prop_def keys_of_def)
  next
    case absent: False
    show ?thesis
    proof (cases "index_of_key k")
      case None
      with False absent show ?thesis by (auto simp: set_prop_def keys_of_def)
    next
      case (Some i)
      have "set (takeWhile (index_below i) r) \<union> set (dropWhile (index_below i) r) \<subseteq> set r"
        using set_takeWhileD set_dropWhileD by fastforce
      with False absent Some show ?thesis
        by (auto simp: set_prop_def keys_of_def)
    qed
  qed
qed

lemma transformRecord_loop_keys:
  "transformRecord_loop P h r ms acc = Inr out \<Longrightarrow> k \<in> keys_of out \<Longrightarrow>
     k \<in> keys_of acc \<or> (\<exists>m \<in> set ms. gristColumn m = k \<and> contributes m)"
proof (induction ms arbitrary: acc)
  case Nil
  then show ?case by simp
next
  case (Cons m ms)
  show ?case
  proof (cases "contributes m")
    case False
    then have "transformRecord_loop P h r (m # ms) acc = transformRecord_loop P h r ms acc"
      by (auto simp: contributes_def isValidMapping_def)
    with Cons.prems have "transformRecord_loop P h r ms acc = Inr out" by simp
    from Cons.IH [OF this Cons.prems(2)] show ?thesis by auto
  next
    case True
    then have live: "gristColumn m \<noteq> []" "apiField m \<noteq> []" "enabled m \<noteq> Some False"
      by (simp_all add: contributes_def isValidMapping_def)
    obtain v where gv: "getNestedValue P h r (apiField m) = Inr v"
      using Cons.prems(1) live by (cases "getNestedValue P h r (apiField m)") simp_all
    define x where "x = (case transform m of Some f \<Rightarrow> f v | None \<Rightarrow> serializeValue_any P h v)"
    from Cons.prems(1) live gv
    have run: "(case x of Inl e \<Rightarrow> Inl e
                | Inr v' \<Rightarrow> transformRecord_loop P h r ms (set_prop acc (gristColumn m) v'))
               = Inr out"
      by (simp add: x_def)
    then obtain v' where
      step: "transformRecord_loop P h r ms (set_prop acc (gristColumn m) v') = Inr out"
      by (cases x) simp_all
    from Cons.IH [OF step Cons.prems(2)]
    have "k \<in> keys_of (set_prop acc (gristColumn m) v')
            \<or> (\<exists>m \<in> set ms. gristColumn m = k \<and> contributes m)" .
    then show ?thesis
    proof
      assume "k \<in> keys_of (set_prop acc (gristColumn m) v')"
      with keys_of_set_prop [of acc "gristColumn m" v']
      have "k = gristColumn m \<or> k \<in> keys_of acc" by blast
      with True show ?thesis by auto
    next
      assume "\<exists>m \<in> set ms. gristColumn m = k \<and> contributes m"
      then show ?thesis by auto
    qed
  qed
qed

lemma transformRecord_loop_filter:
  assumes "\<And>m. \<not> keep m \<Longrightarrow> \<not> contributes m"
  shows "transformRecord_loop P h r (filter keep ms) acc = transformRecord_loop P h r ms acc"
proof (induction ms arbitrary: acc)
  case Nil
  then show ?case by simp
next
  case (Cons m ms)
  show ?case
  proof (cases "keep m")
    case True
    with Cons show ?thesis by (simp split: sum.splits option.splits)
  next
    case False
    with assms have "\<not> contributes m" by blast
    then have "transformRecord_loop P h r (m # ms) acc = transformRecord_loop P h r ms acc"
      by (auto simp: contributes_def isValidMapping_def)
    with False Cons show ?thesis by simp
  qed
qed

text \<open>
  C8. For every source record and every mapping list, no mapping with
  \<open>enabled = Some False\<close> contributes to the transformed record: the result (a record, or
  the exception of a transform, of a read or of a serialization) is the one obtained from
  the list with every disabled mapping removed, and every key of a transformed record is the destination column of a
  mapping of the list that has both sides non-empty and is not disabled.
\<close>

theorem transformRecord_skips_disabled:
  "transformRecord P h apiRecord mappings
     = transformRecord P h apiRecord (filter (\<lambda>m. enabled m \<noteq> Some False) mappings)
   \<and> (\<forall>out k. transformRecord P h apiRecord mappings = Inr out \<and> k \<in> keys_of out \<longrightarrow>
        (\<exists>m \<in> set mappings. gristColumn m = k \<and> enabled m \<noteq> Some False
            \<and> gristColumn m \<noteq> [] \<and> apiField m \<noteq> []))"
proof (intro conjI allI impI)
  have "\<And>m. \<not> enabled m \<noteq> Some False \<Longrightarrow> \<not> contributes m"
    by (simp add: contributes_def)
  then show "transformRecord P h apiRecord mappings
      = transformRecord P h apiRecord (filter (\<lambda>m. enabled m \<noteq> Some False) mappings)"
    unfolding transformRecord_def
    using transformRecord_loop_filter [of "\<lambda>m. enabled m \<noteq> Some False" P h apiRecord mappings "[]"]
    by simp
next
  fix out k
  assume a: "transformRecord P h apiRecord mappings = Inr out \<and> k \<in> keys_of out"
  then have "k \<in> keys_of ([] :: (string \<times> anyval) list)
               \<or> (\<exists>m \<in> set mappings. gristColumn m = k \<and> contributes m)"
    using transformRecord_loop_keys [of P h apiRecord mappings "[]" out k]
    by (simp add: transformRecord_def)
  then show "\<exists>m \<in> set mappings. gristColumn m = k \<and> enabled m \<noteq> Some False
                \<and> gristColumn m \<noteq> [] \<and> apiField m \<noteq> []"
    by (auto simp: keys_of_def contributes_def isValidMapping_def)
qed

text \<open>
  The theorem at \<^verbatim>\<open>transformRecord({name: "Alice", age: 3}, [{gristColumn: "Name",
  apiField: "name"}, {gristColumn: "Age", apiField: "age", enabled: false}])\<close>: the record
  has the key \<open>Name\<close> only.
\<close>

theorem transformRecord_skips_disabled_witness:
  "\<forall>P. transformRecord P [] (JObj [(''name'', JStr ''Alice''), (''age'', JNum (Finite 3))])
          [\<lparr>gristColumn = ''Name'', apiField = ''name'', enabled = None, transform = None\<rparr>,
           \<lparr>gristColumn = ''Age'', apiField = ''age'', enabled = Some False, transform = None\<rparr>]
        = Inr [(''Name'', Data (JStr ''Alice''))]
      \<and> ''Name'' \<in> keys_of [(''Name'', Data (JStr ''Alice''))]
      \<and> ''Age'' \<notin> keys_of [(''Name'', Data (JStr ''Alice''))]
      \<and> (\<exists>m \<in> set [\<lparr>gristColumn = ''Name'', apiField = ''name'', enabled = None, transform = None\<rparr>,
                     \<lparr>gristColumn = ''Age'', apiField = ''age'', enabled = Some False,
                       transform = None\<rparr>].
            gristColumn m = ''Name'' \<and> enabled m \<noteq> Some False
              \<and> gristColumn m \<noteq> [] \<and> apiField m \<noteq> [])"
proof
  fix P
  let ?r = "JObj [(''name'', JStr ''Alice''), (''age'', JNum (Finite 3))]"
  let ?ms = "[\<lparr>gristColumn = ''Name'', apiField = ''name'', enabled = None, transform = None\<rparr>,
              \<lparr>gristColumn = ''Age'', apiField = ''age'', enabled = Some False, transform = None\<rparr>]"
  have run: "transformRecord P [] ?r ?ms = Inr [(''Name'', Data (JStr ''Alice''))]"
    by (simp add: transformRecord_def getNestedValue_def falsy_def get_member_def nullish_def
        read_property_def object_member_def resolve_def serializeValue_any_def
        serializeValue_def set_prop_def index_of_key_def is_digit_def)
  have key: "''Name'' \<in> keys_of [(''Name'', Data (JStr ''Alice''))]"
    by (simp add: keys_of_def)
  have nokey: "''Age'' \<notin> keys_of [(''Name'', Data (JStr ''Alice''))]"
    by (simp add: keys_of_def)
  from transformRecord_skips_disabled [of P "[]" ?r ?ms] run key
  have "\<exists>m \<in> set ?ms. gristColumn m = ''Name'' \<and> enabled m \<noteq> Some False
            \<and> gristColumn m \<noteq> [] \<and> apiField m \<noteq> []"
    by blast
  with run key nokey
  show "transformRecord P [] ?r ?ms = Inr [(''Name'', Data (JStr ''Alice''))]
      \<and> ''Name'' \<in> keys_of [(''Name'', Data (JStr ''Alice''))]
      \<and> ''Age'' \<notin> keys_of [(''Name'', Data (JStr ''Alice''))]
      \<and> (\<exists>m \<in> set ?ms. gristColumn m = ''Name'' \<and> enabled m \<noteq> Some False
              \<and> gristColumn m \<noteq> [] \<and> apiField m \<noteq> [])"
    by blast
qed

text \<open>
  C10. For every source record and every mapping list, transforming with the list
  filtered by \<open>getValidMappings\<close> gives the same result as transforming with the full
  list, whether that result is a record or an exception: the loop skips
  every mapping whose destination column or source field is empty.
\<close>

theorem transformRecord_getValidMappings:
  "transformRecord P h apiRecord (getValidMappings mappings)
     = transformRecord P h apiRecord mappings"
proof -
  have "\<And>m. \<not> isValidMapping m \<Longrightarrow> \<not> contributes m"
    by (simp add: contributes_def)
  then show ?thesis
    unfolding transformRecord_def getValidMappings_def
    by (rule transformRecord_loop_filter)
qed

subsection \<open>Properties: extractAllKeys and generateMappingsFromApiData\<close>

text \<open>
  C1, as stated, fails: the table is consulted with the whole dotted path, not with its
  last segment. \<^verbatim>\<open>generateMappingsFromApiData({user: {id: 1}})\<close> gives the path
  \<^verbatim>\<open>user.id\<close> the column \<^verbatim>\<open>user_id\<close>, not \<^verbatim>\<open>api_id\<close>.
\<close>

theorem generateMappings_nested_id_counterexample:
  "generateMappingsFromApiData [] (JObj [(''user'', JObj [(''id'', JNum (Finite 1))])]) True
     = Inr [\<lparr>gristColumn = ''user'', apiField = ''user'', enabled = Some True, transform = None\<rparr>,
            \<lparr>gristColumn = ''user_id'', apiField = ''user.id'', enabled = Some True,
              transform = None\<rparr>]
   \<and> ''user_id'' \<noteq> ''api_id''"
  by (simp add: generateMappingsFromApiData_def falsy_def typeof_def resolve_def entries_def
      shadows_hasOwnProperty_def is_nested_object_def isArray_def child_path_def
      generatedMapping_def criticalColumns_def replace_dots_def eval_nat_numeral)

text \<open>
  C1, amended. For every sample record that is an object, \<open>generateMappingsFromApiData\<close>
  builds one mapping per dotted path returned by \<open>extractAllKeys\<close>, in order, with the path
  as source field and \<open>defaultEnabled\<close> as flag. The destination column is found by looking
  the whole path up in the table: the paths \<^verbatim>\<open>id\<close>, \<^verbatim>\<open>createdAt\<close> and \<^verbatim>\<open>updatedAt\<close> get
  \<^verbatim>\<open>api_id\<close>, \<^verbatim>\<open>createdAt\<close> and \<^verbatim>\<open>updatedAt\<close>; every other path, in particular every
  path with a dot in it, gets the path with each dot replaced by an underscore.
\<close>

theorem generateMappings_by_whole_path:
  "(\<not> falsy sampleData \<and> typeof h sampleData = ''object''
       \<and> extractAllKeys h sampleData [] 5 = Inr paths \<longrightarrow>
      (\<exists>ms. generateMappingsFromApiData h sampleData defaultEnabled = Inr ms
         \<and> length ms = length paths
         \<and> (\<forall>i < length paths.
               apiField (ms ! i) = paths ! i
             \<and> enabled (ms ! i) = Some defaultEnabled
             \<and> gristColumn (ms ! i) =
                 (if paths ! i = ''id'' then ''api_id''
                  else if paths ! i = ''createdAt'' then ''createdAt''
                  else if paths ! i = ''updatedAt'' then ''updatedAt''
                  else replace_dots (paths ! i))
             \<and> (CHR ''.'' \<in> set (paths ! i) \<longrightarrow>
                  gristColumn (ms ! i) = replace_dots (paths ! i)))))"
proof (intro impI)
  assume a: "\<not> falsy sampleData \<and> typeof h sampleData = ''object''
               \<and> extractAllKeys h sampleData [] 5 = Inr paths"
  let ?ms = "map (generatedMapping defaultEnabled) paths"
  have run: "generateMappingsFromApiData h sampleData defaultEnabled = Inr ?ms"
    using a by (simp add: generateMappingsFromApiData_def)
  have column: "gristColumn (generatedMapping defaultEnabled p) =
                  (if p = ''id'' then ''api_id''
                   else if p = ''createdAt'' then ''createdAt''
                   else if p = ''updatedAt'' then ''updatedAt''
                   else replace_dots p)" for p
    by (simp add: generatedMapping_def criticalColumns_def)
  have dotted: "CHR ''.'' \<in> set p \<Longrightarrow>
                  gristColumn (generatedMapping defaultEnabled p) = replace_dots p" for p
    by (auto simp: column)
  have fields: "apiField (generatedMapping defaultEnabled p) = p
                  \<and> enabled (generatedMapping defaultEnabled p) = Some defaultEnabled" for p
    by (simp add: generatedMapping_def)
  show "\<exists>ms. generateMappingsFromApiData h sampleData defaultEnabled = Inr ms
         \<and> length ms = length paths
         \<and> (\<forall>i < length paths.
               apiField (ms ! i) = paths ! i
             \<and> enabled (ms ! i) = Some defaultEnabled
             \<and> gristColumn (ms ! i) =
                 (if paths ! i = ''id'' then ''api_id''
                  else if paths ! i = ''createdAt'' then ''createdAt''
                  else if paths ! i = ''updatedAt'' then ''updatedAt''
                  else replace_dots (paths ! i))
             \<and> (CHR ''.'' \<in> set (paths ! i) \<longrightarrow>
                  gristColumn (ms ! i) = replace_dots (paths ! i)))"
  proof (intro exI [of _ ?ms] conjI allI impI)
    show "generateMappingsFromApiData h sampleData defaultEnabled = Inr ?ms" by (rule run)
  next
    show "length ?ms = length paths" by simp
  next
    fix i assume "i < length paths"
    then show "apiField (?ms ! i) = paths ! i" by (simp add: fields)
  next
    fix i assume "i < length paths"
    then show "enabled (?ms ! i) = Some defaultEnabled" by (simp add: fields)
  next
    fix i assume "i < length paths"
    then show "gristColumn (?ms ! i) =
                 (if paths ! i = ''id'' then ''api_id''
                  else if paths ! i = ''createdAt'' then ''createdAt''
                  else if paths ! i = ''updatedAt'' then ''updatedAt''
                  else replace_dots (paths ! i))"
      by (simp add: column)
  next
    fix i assume "i < length paths" and "CHR ''.'' \<in> set (paths ! i)"
    then show "gristColumn (?ms ! i) = replace_dots (paths ! i)"
      by (simp add: dotted)
  qed
qed

text \<open>
  The theorem at \<^verbatim>\<open>{id: 1, user: {id: 2}}\<close>: the top-level \<^verbatim>\<open>id\<close> gets \<^verbatim>\<open>api_id\<close>, the
  nested \<^verbatim>\<open>user.id\<close> gets \<^verbatim>\<open>user_id\<close>.
\<close>

theorem generateMappings_by_whole_path_witness:
  "\<not> falsy (JObj [(''id'', JNum (Finite 1)), (''user'', JObj [(''id'', JNum (Finite 2))])])
   \<and> typeof [] (JObj [(''id'', JNum (Finite 1)), (''user'', JObj [(''id'', JNum (Finite 2))])])
       = ''object''
   \<and> extractAllKeys []
        (JObj [(''id'', JNum (Finite 1)), (''user'', JObj [(''id'', JNum (Finite 2))])]) [] 5
       = Inr [''id'', ''user'', ''user.id'']
   \<and> (\<exists>ms. generateMappingsFromApiData []
               (JObj [(''id'', JNum (Finite 1)), (''user'', JObj [(''id'', JNum (Finite 2))])]) True
             = Inr ms
          \<and> length ms = 3
          \<and> gristColumn (ms ! 0) = ''api_id''
          \<and> gristColumn (ms ! 2) = ''user_id'')"
proof -
  let ?s = "JObj [(''id'', JNum (Finite 1)), (''user'', JObj [(''id'', JNum (Finite 2))])]"
  have truthy: "\<not> falsy ?s" by (simp add: falsy_def)
  have object: "typeof [] ?s = ''object''" by (simp add: typeof_def resolve_def)
  have paths: "extractAllKeys [] ?s [] 5 = Inr [''id'', ''user'', ''user.id'']"
    by (simp add: falsy_def typeof_def resolve_def entries_def shadows_hasOwnProperty_def
        is_nested_object_def isArray_def child_path_def eval_nat_numeral)
  from generateMappings_by_whole_path [of ?s "[]" "[''id'', ''user'', ''user.id'']" True]
    truthy object paths
  obtain ms where run: "generateMappingsFromApiData [] ?s True = Inr ms"
    and len: "length ms = length [''id'', ''user'', ''user.id'']"
    and each: "\<forall>i < length [''id'', ''user'', ''user.id''].
               apiField (ms ! i) = [''id'', ''user'', ''user.id''] ! i
             \<and> enabled (ms ! i) = Some True
             \<and> gristColumn (ms ! i) =
                 (if [''id'', ''user'', ''user.id''] ! i = ''id'' then ''api_id''
                  else if [''id'', ''user'', ''user.id''] ! i = ''createdAt'' then ''createdAt''
                  else if [''id'', ''user'', ''user.id''] ! i = ''updatedAt'' then ''updatedAt''
                  else replace_dots ([''id'', ''user'', ''user.id''] ! i))
             \<and> (CHR ''.'' \<in> set ([''id'', ''user'', ''user.id''] ! i) \<longrightarrow>
                  gristColumn (ms ! i) = replace_dots ([''id'', ''user'', ''user.id''] ! i))"
    by blast
  from each have first: "gristColumn (ms ! 0) = ''api_id''"
    by (simp add: All_less_Suc2)
  have "(2::nat) < length [''id'', ''user'', ''user.id'']" by simp
  with each have "gristColumn (ms ! 2) =
       (if [''id'', ''user'', ''user.id''] ! 2 = ''id'' then ''api_id''
        else if [''id'', ''user'', ''user.id''] ! 2 = ''createdAt'' then ''createdAt''
        else if [''id'', ''user'', ''user.id''] ! 2 = ''updatedAt'' then ''updatedAt''
        else replace_dots ([''id'', ''user'', ''user.id''] ! 2))"
    by blast
  then have third: "gristColumn (ms ! 2) = ''user_id''"
    by (simp add: replace_dots_def)
  from len have "length ms = 3" by simp
  with truthy object paths run first third show ?thesis by blast
qed

section \<open>Properties: the error classifier\<close>

subsection \<open>Properties: the HTTP detector\<close>

lemma starts_with_append: "starts_with (sub @ post) sub"
  by (induction sub) simp_all

lemma str_includes_starts: "starts_with s sub \<Longrightarrow> str_includes s sub"
  by (cases s; cases sub) simp_all

lemma str_includes_append: "str_includes (pre @ sub @ post) sub"
proof (induction pre)
  case Nil
  then show ?case by (simp add: str_includes_starts starts_with_append)
next
  case (Cons c pre)
  then show ?case by simp
qed

lemma starts_with_take: "starts_with s p = (take (length p) s = p)"
  by (induction s p rule: starts_with.induct) auto

lemma starts_with_longer:
  "length p \<le> length xs \<Longrightarrow> starts_with (xs @ ys) p = starts_with xs p"
  by (simp add: starts_with_take)

lemma match_HTTP_digits_step:
  "\<not> (starts_with (c # cs) ''HTTP '' \<and> takeWhile is_digit (drop 5 (c # cs)) \<noteq> [])
     \<Longrightarrow> match_HTTP_digits (c # cs) = match_HTTP_digits cs"
  by auto

lemma match_HTTP_digits_first:
  assumes "ds \<noteq> []" and "list_all is_digit ds" and "rest = [] \<or> \<not> is_digit (hd rest)"
    and "match_HTTP_digits (pre @ ''HTTP '') = None"
  shows "match_HTTP_digits (pre @ ''HTTP '' @ ds @ rest) = Some ds"
  using assms(4)
proof (induction pre)
  case Nil
  have "takeWhile is_digit (ds @ rest) = ds"
    using assms(2,3) by (cases rest) (auto simp: list_all_iff takeWhile_append2 intro: takeWhile_eq_all_conv[THEN iffD2])
  with assms(1) show ?case by simp
next
  case (Cons c pre)
  define short where "short = c # pre @ ''HTTP ''"
  define long where "long = short @ ds @ rest"
  have long: "c # pre @ ''HTTP '' @ ds @ rest = long" by (simp add: long_def short_def)
  have none: "\<not> (starts_with short ''HTTP '' \<and> takeWhile is_digit (drop 5 short) \<noteq> [])"
    and tail: "match_HTTP_digits (pre @ ''HTTP '') = None"
    using Cons.prems by (auto simp: short_def split: if_splits)
  have len: "5 < length short" by (simp add: short_def)
  have sw: "starts_with long ''HTTP '' = starts_with short ''HTTP ''"
    unfolding long_def using len by (intro starts_with_longer) simp
  from len obtain x xs where d: "drop 5 short = x # xs"
    by (cases "drop 5 short") auto
  from len have "drop 5 long = drop 5 short @ ds @ rest" by (simp add: long_def)
  with d have tw: "(takeWhile is_digit (drop 5 long) \<noteq> []) = (takeWhile is_digit (drop 5 short) \<noteq> [])"
    by simp
  from none sw tw have no: "\<not> (starts_with long ''HTTP '' \<and> takeWhile is_digit (drop 5 long) \<noteq> [])"
    by simp
  have "match_HTTP_digits (c # pre @ ''HTTP '' @ ds @ rest)
          = match_HTTP_digits (pre @ ''HTTP '' @ ds @ rest)"
  proof (rule match_HTTP_digits_step)
    show "\<not> (starts_with (c # pre @ ''HTTP '' @ ds @ rest) ''HTTP ''
               \<and> takeWhile is_digit (drop 5 (c # pre @ ''HTTP '' @ ds @ rest)) \<noteq> [])"
      unfolding long by (rule no)
  qed
  with Cons.IH [OF tail] show ?case by simp
qed

lemma http_status_first:
  assumes "ds \<noteq> []" and "list_all is_digit ds" and "rest = [] \<or> \<not> is_digit (hd rest)"
    and "match_HTTP_digits (pre @ ''HTTP '') = None"
  shows "http_status (pre @ ''HTTP '' @ ds @ rest) = Some (digits_value ds)"
proof -
  have "pre @ ''HTTP '' @ ds @ rest = pre @ ''HTTP'' @ ('' '' @ ds @ rest)" by simp
  then have inc: "str_includes (pre @ ''HTTP '' @ ds @ rest) ''HTTP''"
    using str_includes_append [of pre "''HTTP''" "'' '' @ ds @ rest"] by simp
  have ne: "pre @ ''HTTP '' @ ds @ rest \<noteq> []" by simp
  from match_HTTP_digits_first [OF assms]
  have m: "match_HTTP_digits (pre @ ''HTTP '' @ ds @ rest) = Some ds" .
  show ?thesis
    unfolding http_status_def using inc ne m by (simp add: parseInt_def)
qed

lemma analyzeError_http:
  "\<not> isCorsError error \<Longrightarrow> \<not> isNetworkError error \<Longrightarrow> http_status (err_message error) = Some code
     \<Longrightarrow> analyzeError error context = analyzeHttpError code error context"
  by (simp add: analyzeError_def)

lemma analyzeHttpError_type:
  "type (analyzeHttpError code error context) =
     (if code = 401 then unauthorized
      else if code = 403 then forbidden
      else if code = 404 then not_found
      else if code = 422 then unprocessable
      else if code \<in> {500, 502, 503, 504} then server_error
      else unknown)"
  by (simp add: analyzeHttpError_def)

lemma analyzeHttpError_default_title:
  "code \<notin> {401, 403, 404, 422, 500, 502, 503, 504} \<Longrightarrow> code \<le> 2 ^ 53 \<Longrightarrow>
     title (analyzeHttpError code error context) = ''Erreur HTTP '' @ show_nat code"
  by (simp add: analyzeHttpError_def number_text_def)

lemma not_found_example_plain:
  "\<not> isCorsError (JsError ''Error'' ''HTTP 404: not found'' [])
   \<and> \<not> isNetworkError (JsError ''Error'' ''HTTP 404: not found'' [])
   \<and> http_status ''HTTP 404: not found'' = Some 404"
proof (intro conjI)
  show c: "\<not> isCorsError (JsError ''Error'' ''HTTP 404: not found'' [])"
    by (simp add: isCorsError_def toLowerCase_def lower_char_def lower_table_def)
  show "\<not> isNetworkError (JsError ''Error'' ''HTTP 404: not found'' [])"
    by (simp add: isNetworkError_def toLowerCase_def lower_char_def lower_table_def)
  show "http_status ''HTTP 404: not found'' = Some 404"
    by (simp add: http_status_def parseInt_def digits_value_def is_digit_def)
qed

text \<open>
  C4. For every error that neither the cross-origin nor the network detector matches and
  whose message contains \<^verbatim>\<open>HTTP\<close>, a space and a code (the digits \<open>ds\<close>, at the first place
  of the message where the pattern matches), the kind is decided by the number the digits
  denote: 401 is unauthorized, 403 forbidden, 404 not found, 422 unprocessable, each of
  500, 502, 503 and 504 a server error, and any other code the unknown kind. For a code up
  to \<open>2^53\<close> (beyond, \<^verbatim>\<open>parseInt\<close> rounds) the classifier returns what
  \<open>analyzeHttpError\<close> returns for that number, and the title of the unknown kind is
  \<^verbatim>\<open>Erreur HTTP\<close> and the code. An error with the message \<^verbatim>\<open>HTTP 404: not found\<close> is
  classified not found; under the context \<^verbatim>\<open>grist_sync\<close> its remediation names the
  Document ID and the Table ID, under \<^verbatim>\<open>api_fetch\<close> the URL of the backend.
\<close>

theorem analyzeError_http_dispatch:
  "(\<not> isCorsError error \<and> \<not> isNetworkError error
      \<and> err_message error = pre @ ''HTTP '' @ ds @ rest
      \<and> ds \<noteq> [] \<and> list_all is_digit ds \<and> (rest = [] \<or> \<not> is_digit (hd rest))
      \<and> match_HTTP_digits (pre @ ''HTTP '') = None
    \<longrightarrow> type (analyzeError error context) =
           (if digits_value ds = 401 then unauthorized
            else if digits_value ds = 403 then forbidden
            else if digits_value ds = 404 then not_found
            else if digits_value ds = 422 then unprocessable
            else if digits_value ds \<in> {500, 502, 503, 504} then server_error
            else unknown)
      \<and> (digits_value ds \<le> 2 ^ 53 \<longrightarrow>
            analyzeError error context = analyzeHttpError (digits_value ds) error context
            \<and> (digits_value ds \<notin> {401, 403, 404, 422, 500, 502, 503, 504} \<longrightarrow>
                 title (analyzeError error context)
                   = ''Erreur HTTP '' @ show_nat (digits_value ds))))
   \<and> type (analyzeError (JsError ''Error'' ''HTTP 404: not found'' []) ''grist_sync'') = not_found
   \<and> solutions (analyzeError (JsError ''Error'' ''HTTP 404: not found'' []) ''grist_sync'') =
        [''(v) Verifiez que le Document ID est correct (dans l'URL Grist)'',
         ''(v) Verifiez que le Table ID correspond exactement au nom de la table (sensible a la casse)'',
         ''(v) Testez la connexion avec le bouton '' @ [CHR 0x22]
           @ ''(?) Tester la connexion Grist'' @ [CHR 0x22]]
   \<and> type (analyzeError (JsError ''Error'' ''HTTP 404: not found'' []) ''api_fetch'') = not_found
   \<and> solutions (analyzeError (JsError ''Error'' ''HTTP 404: not found'' []) ''api_fetch'') =
        [''(v) Verifiez que l'URL du backend est correcte'',
         ''(v) Verifiez que l'endpoint existe'',
         ''(v) Testez l'URL dans un navigateur ou avec un outil comme Postman'']"
proof (intro conjI impI)
  assume a: "\<not> isCorsError error \<and> \<not> isNetworkError error
      \<and> err_message error = pre @ ''HTTP '' @ ds @ rest
      \<and> ds \<noteq> [] \<and> list_all is_digit ds \<and> (rest = [] \<or> \<not> is_digit (hd rest))
      \<and> match_HTTP_digits (pre @ ''HTTP '') = None"
  then have st: "http_status (err_message error) = Some (digits_value ds)"
    using http_status_first [of ds rest pre] by simp
  with a have eq: "analyzeError error context = analyzeHttpError (digits_value ds) error context"
    by (simp add: analyzeError_http)
  show "type (analyzeError error context) =
           (if digits_value ds = 401 then unauthorized
            else if digits_value ds = 403 then forbidden
            else if digits_value ds = 404 then not_found
            else if digits_value ds = 422 then unprocessable
            else if digits_value ds \<in> {500, 502, 503, 504} then server_error
            else unknown)"
    unfolding eq by (rule analyzeHttpError_type)
  assume bound: "digits_value ds \<le> 2 ^ 53"
  show "analyzeError error context = analyzeHttpError (digits_value ds) error context"
    by (rule eq)
  assume "digits_value ds \<notin> {401, 403, 404, 422, 500, 502, 503, 504}"
  then show "title (analyzeError error context) = ''Erreur HTTP '' @ show_nat (digits_value ds)"
    unfolding eq using bound by (rule analyzeHttpError_default_title)
next
  let ?e = "JsError ''Error'' ''HTTP 404: not found'' []"
  have eq: "analyzeError ?e ctx = analyzeHttpError 404 ?e ctx" for ctx
    using not_found_example_plain by (simp add: analyzeError_http)
  show "type (analyzeError ?e ''grist_sync'') = not_found"
    unfolding eq by (simp add: analyzeHttpError_def)
  show "solutions (analyzeError ?e ''grist_sync'') =
        [''(v) Verifiez que le Document ID est correct (dans l'URL Grist)'',
         ''(v) Verifiez que le Table ID correspond exactement au nom de la table (sensible a la casse)'',
         ''(v) Testez la connexion avec le bouton '' @ [CHR 0x22]
           @ ''(?) Tester la connexion Grist'' @ [CHR 0x22]]"
    unfolding eq by (simp add: analyzeHttpError_def)
  show "type (analyzeError ?e ''api_fetch'') = not_found"
    unfolding eq by (simp add: analyzeHttpError_def)
  show "solutions (analyzeError ?e ''api_fetch'') =
        [''(v) Verifiez que l'URL du backend est correcte'',
         ''(v) Verifiez que l'endpoint existe'',
         ''(v) Testez l'URL dans un navigateur ou avec un outil comme Postman'']"
    unfolding eq by (simp add: analyzeHttpError_def)
qed

text \<open>
  The theorem at the message the client raises for a 418 response with the body
  \<^verbatim>\<open>no\<close>, \<^verbatim>\<open>Erreur HTTP 418: no\<close>: the kind is unknown and the title
  \<^verbatim>\<open>Erreur HTTP 418\<close>.
\<close>

theorem analyzeError_http_dispatch_witness:
  "\<not> isCorsError (JsError ''Error'' ''Erreur HTTP 418: no'' [])
   \<and> \<not> isNetworkError (JsError ''Error'' ''Erreur HTTP 418: no'' [])
   \<and> err_message (JsError ''Error'' ''Erreur HTTP 418: no'' [])
        = ''Erreur '' @ ''HTTP '' @ ''418'' @ '': no''
   \<and> ''418'' \<noteq> [] \<and> list_all is_digit ''418'' \<and> \<not> is_digit (hd '': no'')
   \<and> match_HTTP_digits (''Erreur '' @ ''HTTP '') = None
   \<and> digits_value ''418'' = 418 \<and> digits_value ''418'' \<le> 2 ^ 53
   \<and> digits_value ''418'' \<notin> {401, 403, 404, 422, 500, 502, 503, 504}
   \<and> type (analyzeError (JsError ''Error'' ''Erreur HTTP 418: no'' []) ''grist_sync'') = unknown
   \<and> title (analyzeError (JsError ''Error'' ''Erreur HTTP 418: no'' []) ''grist_sync'')
        = ''Erreur HTTP 418''"
proof -
  let ?e = "JsError ''Error'' ''Erreur HTTP 418: no'' []"
  have c: "\<not> isCorsError ?e"
    by (simp add: isCorsError_def toLowerCase_def lower_char_def lower_table_def)
  have n: "\<not> isNetworkError ?e"
    by (simp add: isNetworkError_def toLowerCase_def lower_char_def lower_table_def)
  have m: "err_message ?e = ''Erreur '' @ ''HTTP '' @ ''418'' @ '': no''" by simp
  have d1: "''418'' \<noteq> []" by simp
  have d2: "list_all is_digit ''418''" by (simp add: is_digit_def)
  have d3: "\<not> is_digit (hd '': no'')" by (simp add: is_digit_def)
  have d3': "'': no'' = [] \<or> \<not> is_digit (hd '': no'')" using d3 by simp
  have e: "match_HTTP_digits (''Erreur '' @ ''HTTP '') = None" by simp
  have v: "digits_value ''418'' = 418" by (simp add: digits_value_def)
  have b: "digits_value ''418'' \<le> 2 ^ 53" by (simp add: v)
  have o: "digits_value ''418'' \<notin> {401, 403, 404, 422, 500, 502, 503, 504}" by (simp add: v)
  have s: "show_nat 418 = ''418''" by (simp add: show_nat.simps digit_char_def)
  have hyps: "\<not> isCorsError ?e \<and> \<not> isNetworkError ?e
      \<and> err_message ?e = ''Erreur '' @ ''HTTP '' @ ''418'' @ '': no''
      \<and> ''418'' \<noteq> [] \<and> list_all is_digit ''418'' \<and> ('': no'' = [] \<or> \<not> is_digit (hd '': no''))
      \<and> match_HTTP_digits (''Erreur '' @ ''HTTP '') = None"
    by (intro conjI c n m d1 d2 d3' e)
  note disp = analyzeError_http_dispatch [of ?e "''Erreur ''" "''418''" "'': no''" "''grist_sync''",
      THEN conjunct1, rule_format, OF hyps]
  from disp [THEN conjunct1]
  have ty: "type (analyzeError ?e ''grist_sync'') = unknown" by (simp add: v)
  from disp [THEN conjunct2, rule_format, OF b, THEN conjunct2, rule_format, OF o]
  have ti: "title (analyzeError ?e ''grist_sync'') = ''Erreur HTTP 418''" by (simp add: v s)
  show ?thesis by (intro conjI c n m d1 d2 d3 e v b o ty ti)
qed

subsection \<open>Properties: the order of the detectors\<close>










section \<open>Properties: failures of the client\<close>

subsection \<open>Properties: what the try blocks raise\<close>

lemma http_failure_Error: "\<exists>e. http_failure r = Thrown_Error e"
  by (simp add: http_failure_def new_Error_def split: sum.splits)

lemma get_prop_Error: "get_prop h v k = Inl t \<Longrightarrow> \<exists>e. t = Thrown_Error e"
  by (auto simp: get_prop_def TypeError_def split: if_splits)



lemma rethrow_Error:
  "rethrow (Thrown_Error e) =
     new_Error (message (analyzeError e ''grist_sync'') @ '' - ''
                  @ first_solution (analyzeError e ''grist_sync''))"
  by (simp add: rethrow_def analyze_caught_def throw_classified_def)

lemma show_nat_404: "show_nat 404 = ''404''"
  by (simp add: show_nat.simps digit_char_def)

lemma analyzeError_404:
  "analyzeError (JsError ''Error'' ''Erreur HTTP 404: not found'' []) ''grist_sync''
     = analyzeHttpError 404 (JsError ''Error'' ''Erreur HTTP 404: not found'' []) ''grist_sync''"
proof (rule analyzeError_http)
  show "\<not> isCorsError (JsError ''Error'' ''Erreur HTTP 404: not found'' [])"
    by (simp add: isCorsError_def toLowerCase_def lower_char_def lower_table_def)
  show "\<not> isNetworkError (JsError ''Error'' ''Erreur HTTP 404: not found'' [])"
    by (simp add: isNetworkError_def toLowerCase_def lower_char_def lower_table_def)
  show "http_status (err_message (JsError ''Error'' ''Erreur HTTP 404: not found'' [])) = Some 404"
    by (simp add: http_status_def parseInt_def digits_value_def is_digit_def)
qed






subsection \<open>Properties: addRecords\<close>

lemma traverse_Inl: "traverse f xs = Inl t \<Longrightarrow> \<exists>x \<in> set xs. f x = Inl t"
  by (induction xs) (auto split: sum.splits)




lemma log_msg_sent: "sent (log_msg c m t fx) = sent fx"
  by (simp add: log_msg_def)

lemma log_and_rethrow_Error:
  "fst (log_and_rethrow c (Thrown_Error e) fx) =
     new_Error (formatErrorShort (analyzeError e ''grist_sync''))"
  by (simp add: log_and_rethrow_def analyze_caught_def throw_classified_def formatErrorShort_def Let_def)

lemma log_and_rethrow_sent: "sent (snd (log_and_rethrow c error fx)) = sent fx"
  by (simp add: log_and_rethrow_def Let_def log_msg_sent split: sum.splits)

lemma ensureColumnsExist_returns: "fst (ensureColumnsExist c nw h records fx) = Inr ()"
  by (simp add: ensureColumnsExist_def split: prod.splits sum.splits thrown.splits)

lemma getColumns_404:
  "getColumns demo_client answer_404 fx =
     (Inl (new_Error ''Document, table ou URL introuvable - (v) Verifiez que le Document ID est correct (dans l'URL Grist)''),
      fx\<lparr>sent := sent fx @ [list_columns_request demo_client]\<rparr>)"
  by (simp add: getColumns_def getColumns_try_def fetch_def answer_404_def ok_def http_failure_def
      show_nat_404 new_Error_def rethrow_Error [unfolded new_Error_def] analyzeError_404 analyzeHttpError_def first_solution_def)


















subsection \<open>Properties: ensureColumnsExist\<close>

lemma getColumns_Error: "getColumns c nw fx = (Inl t, fx') \<Longrightarrow> \<exists>e. t = Thrown_Error e"
proof -
  assume a: "getColumns c nw fx = (Inl t, fx')"
  obtain r fx1 where run: "getColumns_try c nw fx = (r, fx1)" by (cases "getColumns_try c nw fx")
  show ?thesis
  proof (cases r)
    case (Inl error)
    have "\<exists>e. error = Thrown_Error e"
      using run Inl http_failure_Error get_prop_Error
      by (fastforce simp: getColumns_try_def split: prod.splits fetch_result.splits sum.splits if_splits)
    then obtain e where "error = Thrown_Error e" by blast
    with a run Inl show ?thesis by (auto simp: getColumns_def rethrow_Error new_Error_def)
  next
    case (Inr cs)
    with a run show ?thesis by (simp add: getColumns_def)
  qed
qed

lemma column_ids_Error: "column_ids v = Inl t \<Longrightarrow> \<exists>e. t = Thrown_Error e"
proof (cases v)
  case (JArr cols)
  assume "column_ids v = Inl t"
  with JArr obtain col where "(case get_prop [] col ''fields'' of
                            Inl e \<Rightarrow> Inl e
                          | Inr col_fields \<Rightarrow> get_prop [] col_fields ''colId'') = Inl t"
    using traverse_Inl by (fastforce simp: column_ids_def)
  then show ?thesis using get_prop_Error by (fastforce split: sum.splits)
qed (auto simp: column_ids_def TypeError_def)

lemma addColumns_try_Error:
  "addColumns_try c nw cols fx = (Inl t, fx') \<Longrightarrow> \<exists>e. t = Thrown_Error e"
  using http_failure_Error
  by (fastforce simp: addColumns_try_def split: prod.splits fetch_result.splits sum.splits if_splits)

lemma addColumns_Error: "addColumns c nw cols fx = (Inl t, fx') \<Longrightarrow> \<exists>e. t = Thrown_Error e"
proof -
  assume a: "addColumns c nw cols fx = (Inl t, fx')"
  then have ne: "length cols \<noteq> 0" by (auto simp: addColumns_def)
  obtain r fx1 where run: "addColumns_try c nw cols fx = (r, fx1)" by (cases "addColumns_try c nw cols fx")
  show ?thesis
  proof (cases r)
    case (Inl error)
    with run obtain e where e: "error = Thrown_Error e" using addColumns_try_Error by blast
    from a ne run Inl have "t = fst (log_and_rethrow c error fx1)"
      by (auto simp: addColumns_def split: prod.splits)
    with e show ?thesis by (auto simp: log_and_rethrow_Error new_Error_def)
  next
    case (Inr d)
    with a ne run show ?thesis by (simp add: addColumns_def)
  qed
qed

lemma ensureColumnsExist_try_Error:
  "ensureColumnsExist_try c nw h records fx = (Inl t, fx') \<Longrightarrow> \<exists>e. t = Thrown_Error e"
  unfolding ensureColumnsExist_try_def Let_def
  using getColumns_Error column_ids_Error addColumns_Error
  by (fastforce split: prod.splits sum.splits if_splits)

lemma getColumns_ok:
  assumes "nw (sent fx) (list_columns_request c) = Resolves r" and "ok r"
    and "json_body r = Inr data" and "get_prop [] data ''columns'' = Inr cs"
  shows "getColumns c nw fx =
           (Inr (if falsy cs then JArr [] else cs), fx\<lparr>sent := sent fx @ [list_columns_request c]\<rparr>)"
  using assms by (simp add: getColumns_def getColumns_try_def fetch_def)

lemma addColumns_sent:
  "cols \<noteq> [] \<Longrightarrow> sent (snd (addColumns c nw cols fx)) = sent fx @ [columns_request c cols]"
  by (simp add: addColumns_def addColumns_try_def fetch_def log_and_rethrow_sent case_prod_beta
        split: fetch_result.splits sum.splits)

lemma ensureColumnsExist_sent:
  assumes "records \<noteq> []"
    and "nw (sent fx) (list_columns_request c) = Resolves r" and "ok r"
    and "json_body r = Inr data" and "get_prop [] data ''columns'' = Inr cs"
    and "column_ids (if falsy cs then JArr [] else cs) = Inr ids"
  shows "sent (snd (ensureColumnsExist c nw h records fx)) =
           sent fx @ list_columns_request c #
             (if missingColumns ids records = [] then []
              else [columns_request c (columnsToCreate h records (missingColumns ids records))])"
proof -
  let ?fx1 = "log_msg c ''(?) Verification des colonnes existantes...'' log_info fx"
  have s1: "sent ?fx1 = sent fx" by (rule log_msg_sent)
  have gc: "getColumns c nw ?fx1 =
           (Inr (if falsy cs then JArr [] else cs), ?fx1\<lparr>sent := sent ?fx1 @ [list_columns_request c]\<rparr>)"
    using assms(2-5) by (intro getColumns_ok) (simp_all add: s1)
  have ctc: "columnsToCreate h records (missingColumns ids records) = [] \<longleftrightarrow> missingColumns ids records = []"
    by (simp add: columnsToCreate_def)
  have "sent (snd (ensureColumnsExist_try c nw h records fx)) =
           sent fx @ list_columns_request c #
             (if missingColumns ids records = [] then []
              else [columns_request c (columnsToCreate h records (missingColumns ids records))])"
    unfolding ensureColumnsExist_try_def Let_def gc
    using assms(6) s1 addColumns_sent [of "columnsToCreate h records (missingColumns ids records)" c nw]
    by (simp add: log_msg_sent ctc case_prod_beta split: sum.splits)
  moreover have "sent (snd (ensureColumnsExist c nw h records fx)) = sent (snd (ensureColumnsExist_try c nw h records fx))"
    using assms(1) by (simp add: ensureColumnsExist_def console_warn_def log_msg_sent case_prod_beta split: sum.splits thrown.splits)
  ultimately show ?thesis by simp
qed

lemma foldl_add_key_set: "set (foldl add_key ks xs) = set ks \<union> set xs"
  by (induction xs arbitrary: ks) (auto simp: add_key_def)

lemma foldl_add_key_distinct: "distinct ks \<Longrightarrow> distinct (foldl add_key ks xs)"
  by (induction xs arbitrary: ks) (auto simp: add_key_def)

lemma foldl_records_set:
  "set (foldl (\<lambda>ks record. foldl add_key ks (map fst record)) ks0 records)
     = set ks0 \<union> (\<Union>record \<in> set records. fst ` set record)"
  by (induction records arbitrary: ks0) (auto simp: foldl_add_key_set)

lemma foldl_records_distinct:
  "distinct ks0 \<Longrightarrow> distinct (foldl (\<lambda>ks record. foldl add_key ks (map fst record)) ks0 records)"
  by (induction records arbitrary: ks0) (auto simp: foldl_add_key_distinct)

lemma missingColumns_set:
  "set (missingColumns ids records)
     = {k. (\<exists>record \<in> set records. k \<in> fst ` set record) \<and> JStr k \<notin> set ids}"
  by (auto simp: missingColumns_def requiredColumns_def foldl_records_set)

lemma missingColumns_distinct: "distinct (missingColumns ids records)"
  by (simp add: missingColumns_def requiredColumns_def foldl_records_distinct)

lemma inferColumnType_loop_skip:
  "\<forall>p \<in> set pre. nullish (object_member p k) \<Longrightarrow>
     inferColumnType_loop h (pre @ rest) k = inferColumnType_loop h rest k"
  by (induction pre) (simp_all add: nullish_def)

lemma inferColumnType_first:
  assumes "records = pre @ r # post" and "length pre < 10"
    and "\<forall>p \<in> set pre. nullish (object_member p k)"
  shows "inferColumnType h records k = inferColumnType_loop h (r # take (9 - length pre) post) k"
proof -
  from assms(2) have "take 10 (pre @ r # post) = pre @ r # take (9 - length pre) post"
    by (simp add: take_Cons')
  with assms(1,3) show ?thesis
    by (simp add: inferColumnType_def inferColumnType_loop_skip)
qed

lemma inferColumnType_number:
  "object_member r k = Data (JNum n) \<Longrightarrow>
     inferColumnType_loop h (r # rest) k = (if isInteger n then ''Int'' else ''Numeric'')"
  by (simp add: typeof_any_def typeof_def resolve_def)

lemma inferColumnType_boolean:
  "object_member r k = Data (JBool b) \<Longrightarrow> inferColumnType_loop h (r # rest) k = ''Bool''"
  by (simp add: typeof_any_def typeof_def resolve_def)

lemma inferColumnType_string:
  "object_member r k = Data (JStr s) \<Longrightarrow>
     inferColumnType_loop h (r # rest) k = (if dateRegex_test s then ''DateTime'' else ''Text'')"
  by (simp add: typeof_any_def typeof_def resolve_def)

lemma inferColumnType_other:
  "\<not> nullish (object_member r k) \<Longrightarrow>
   typeof_any h (object_member r k) \<notin> {''number'', ''boolean'', ''string''} \<Longrightarrow>
     inferColumnType_loop h (r # rest) k = ''Text''"
  by (simp add: nullish_def)

lemma inferColumnType_window:
  assumes "\<forall>p \<in> set (take 10 records). nullish (object_member p k)"
  shows "inferColumnType h records k = ''Text''"
  using inferColumnType_loop_skip [OF assms, of h "[]"] by (simp add: inferColumnType_def)

lemma whole_isInteger: "isInteger (Finite (of_int i))"
  by (simp add: isInteger_def)

lemma inferColumnType_loop_names:
  "inferColumnType_loop h records k \<in> {''Int'', ''Numeric'', ''Bool'', ''DateTime'', ''Text''}"
  by (induction records) (auto simp: Let_def split: anyval.splits jsval.splits)

lemma inferColumnType_nonempty: "inferColumnType h records k \<noteq> []"
  using inferColumnType_loop_names [of h "take 10 records" k]
  by (auto simp: inferColumnType_def)

text \<open>The body of the creation request, with the defaults of \<open>addColumns\<close> applied.\<close>

lemma columns_request_body:
  "req_body (columns_request c (columnsToCreate h records missing)) =
     Some (JObj [(''columns'', JArr (map (\<lambda>id.
        JObj [(''id'', JStr id),
              (''fields'', JObj [(''colId'', JStr id), (''label'', JStr id),
                                 (''type'', JStr (inferColumnType h records id))])]) missing))])"
  by (simp add: columns_request_def columnsToCreate_def column_body_def or_else_def
      inferColumnType_nonempty comp_def)

lemma ensureColumnsExist_warns:
  assumes "records \<noteq> []" and "fst (ensureColumnsExist_try c nw h records fx) = Inl t"
  shows "\<exists>e. t = Thrown_Error e
           \<and> ensureColumnsExist c nw h records fx =
               (Inr (),
                console_warn (''Avertissement lors de la creation automatique des colonnes: ''
                                @ err_message e)
                  (log_msg c (''(!) Avertissement lors de la creation automatique des colonnes: ''
                                @ err_message e) log_error
                     (snd (ensureColumnsExist_try c nw h records fx))))"
proof -
  obtain fx' where run: "ensureColumnsExist_try c nw h records fx = (Inl t, fx')"
    using assms(2) by (cases "ensureColumnsExist_try c nw h records fx") simp
  then obtain e where e: "t = Thrown_Error e" using ensureColumnsExist_try_Error by blast
  with run assms(1) show ?thesis by (simp add: ensureColumnsExist_def)
qed

text \<open>
  C2. \<open>ensureColumnsExist\<close> never raises: it returns whatever happens inside. On a
  non-empty list, a failure anywhere in its \<^verbatim>\<open>try\<close> block (listing the columns, reading
  them, creating the missing ones) is an \<^verbatim>\<open>Error\<close> instance; it is caught, logged through
  the callback as a warning and written with \<^verbatim>\<open>console.warn\<close>, and the function returns.
  When the listing succeeds, the requests sent are the listing and, if a key of some record
  is not the \<open>colId\<close> of an existing column, one creation request; the body of that request
  lists exactly the missing keys, each once, with the key as label and the type that
  \<open>inferColumnType\<close> gives. That type is decided by the first value of the key, among the
  first ten records, that is neither null nor undefined: \<^verbatim>\<open>Int\<close> for a whole number,
  \<^verbatim>\<open>Numeric\<close> for any other number, \<^verbatim>\<open>Bool\<close> for a boolean, \<^verbatim>\<open>DateTime\<close> for a string
  that starts with a date, \<^verbatim>\<open>Text\<close> for any other value; it is \<^verbatim>\<open>Text\<close> when the first
  ten records have no such value, whatever the later records hold.
\<close>

theorem ensureColumnsExist_contract:
  "fst (ensureColumnsExist c nw h records fx) = Inr ()
   \<and> (\<forall>t. records \<noteq> [] \<and> fst (ensureColumnsExist_try c nw h records fx) = Inl t \<longrightarrow>
        (\<exists>e. t = Thrown_Error e
           \<and> ensureColumnsExist c nw h records fx =
               (Inr (),
                console_warn (''Avertissement lors de la creation automatique des colonnes: ''
                                @ err_message e)
                  (log_msg c (''(!) Avertissement lors de la creation automatique des colonnes: ''
                                @ err_message e) log_error
                     (snd (ensureColumnsExist_try c nw h records fx))))))
   \<and> (\<forall>r data cs ids. records \<noteq> []
          \<and> nw (sent fx) (list_columns_request c) = Resolves r \<and> ok r
          \<and> json_body r = Inr data \<and> get_prop [] data ''columns'' = Inr cs
          \<and> column_ids (if falsy cs then JArr [] else cs) = Inr ids \<longrightarrow>
        sent (snd (ensureColumnsExist c nw h records fx)) =
           sent fx @ list_columns_request c #
             (if missingColumns ids records = [] then []
              else [columns_request c (columnsToCreate h records (missingColumns ids records))])
        \<and> distinct (missingColumns ids records)
        \<and> set (missingColumns ids records)
             = {k. (\<exists>record \<in> set records. k \<in> fst ` set record) \<and> JStr k \<notin> set ids}
        \<and> req_body (columns_request c (columnsToCreate h records (missingColumns ids records)))
             = Some (JObj [(''columns'', JArr (map (\<lambda>id.
                  JObj [(''id'', JStr id),
                        (''fields'', JObj [(''colId'', JStr id), (''label'', JStr id),
                                           (''type'', JStr (inferColumnType h records id))])])
                  (missingColumns ids records)))]))
   \<and> (\<forall>pre r post k. records = pre @ r # post \<and> length pre < 10
          \<and> (\<forall>p \<in> set pre. nullish (object_member p k)) \<longrightarrow>
        (\<forall>i. object_member r k = Data (JNum (Finite (of_int i))) \<longrightarrow>
               inferColumnType h records k = ''Int'')
        \<and> (\<forall>n. object_member r k = Data (JNum n) \<longrightarrow>
               inferColumnType h records k = (if isInteger n then ''Int'' else ''Numeric''))
        \<and> (\<forall>b. object_member r k = Data (JBool b) \<longrightarrow> inferColumnType h records k = ''Bool'')
        \<and> (\<forall>s. object_member r k = Data (JStr s) \<longrightarrow>
               inferColumnType h records k = (if dateRegex_test s then ''DateTime'' else ''Text''))
        \<and> (\<not> nullish (object_member r k)
             \<and> typeof_any h (object_member r k) \<notin> {''number'', ''boolean'', ''string''} \<longrightarrow>
               inferColumnType h records k = ''Text''))
   \<and> (\<forall>k. (\<forall>p \<in> set (take 10 records). nullish (object_member p k)) \<longrightarrow>
        inferColumnType h records k = ''Text'')"
proof (intro conjI allI impI)
  show "fst (ensureColumnsExist c nw h records fx) = Inr ()"
    by (rule ensureColumnsExist_returns)
next
  fix t
  assume "records \<noteq> [] \<and> fst (ensureColumnsExist_try c nw h records fx) = Inl t"
  then show "\<exists>e. t = Thrown_Error e
           \<and> ensureColumnsExist c nw h records fx =
               (Inr (),
                console_warn (''Avertissement lors de la creation automatique des colonnes: ''
                                @ err_message e)
                  (log_msg c (''(!) Avertissement lors de la creation automatique des colonnes: ''
                                @ err_message e) log_error
                     (snd (ensureColumnsExist_try c nw h records fx))))"
    using ensureColumnsExist_warns by blast
next
  fix r data cs ids
  assume a: "records \<noteq> []
          \<and> nw (sent fx) (list_columns_request c) = Resolves r \<and> ok r
          \<and> json_body r = Inr data \<and> get_prop [] data ''columns'' = Inr cs
          \<and> column_ids (if falsy cs then JArr [] else cs) = Inr ids"
  then show "sent (snd (ensureColumnsExist c nw h records fx)) =
           sent fx @ list_columns_request c #
             (if missingColumns ids records = [] then []
              else [columns_request c (columnsToCreate h records (missingColumns ids records))])"
    using ensureColumnsExist_sent [of records nw fx c r data cs ids h] by blast
  show "distinct (missingColumns ids records)" by (rule missingColumns_distinct)
  show "set (missingColumns ids records)
             = {k. (\<exists>record \<in> set records. k \<in> fst ` set record) \<and> JStr k \<notin> set ids}"
    by (rule missingColumns_set)
  show "req_body (columns_request c (columnsToCreate h records (missingColumns ids records)))
             = Some (JObj [(''columns'', JArr (map (\<lambda>id.
                  JObj [(''id'', JStr id),
                        (''fields'', JObj [(''colId'', JStr id), (''label'', JStr id),
                                           (''type'', JStr (inferColumnType h records id))])])
                  (missingColumns ids records)))])"
    by (rule columns_request_body)
next
  fix pre r post k i
  assume a: "records = pre @ r # post \<and> length pre < 10
          \<and> (\<forall>p \<in> set pre. nullish (object_member p k))"
    and v: "object_member r k = Data (JNum (Finite (of_int i)))"
  from a have "inferColumnType h records k = inferColumnType_loop h (r # take (9 - length pre) post) k"
    using inferColumnType_first [of records pre r post k h] by blast
  moreover have "inferColumnType_loop h (r # take (9 - length pre) post) k
      = (if isInteger (Finite (of_int i)) then ''Int'' else ''Numeric'')"
    using v by (rule inferColumnType_number)
  ultimately show "inferColumnType h records k = ''Int''"
    by (simp only: whole_isInteger if_True)
next
  fix pre r post k n
  assume a: "records = pre @ r # post \<and> length pre < 10
          \<and> (\<forall>p \<in> set pre. nullish (object_member p k))"
    and v: "object_member r k = Data (JNum n)"
  from a have "inferColumnType h records k = inferColumnType_loop h (r # take (9 - length pre) post) k"
    using inferColumnType_first [of records pre r post k h] by blast
  moreover have "inferColumnType_loop h (r # take (9 - length pre) post) k
      = (if isInteger n then ''Int'' else ''Numeric'')"
    using v by (rule inferColumnType_number)
  ultimately show "inferColumnType h records k = (if isInteger n then ''Int'' else ''Numeric'')"
    by (rule trans)
next
  fix pre r post k b
  assume a: "records = pre @ r # post \<and> length pre < 10
          \<and> (\<forall>p \<in> set pre. nullish (object_member p k))"
    and v: "object_member r k = Data (JBool b)"
  from a have "inferColumnType h records k = inferColumnType_loop h (r # take (9 - length pre) post) k"
    using inferColumnType_first [of records pre r post k h] by blast
  moreover have "inferColumnType_loop h (r # take (9 - length pre) post) k = ''Bool''"
    using v by (rule inferColumnType_boolean)
  ultimately show "inferColumnType h records k = ''Bool''"
    by (rule trans)
next
  fix pre r post k s
  assume a: "records = pre @ r # post \<and> length pre < 10
          \<and> (\<forall>p \<in> set pre. nullish (object_member p k))"
    and v: "object_member r k = Data (JStr s)"
  from a have "inferColumnType h records k = inferColumnType_loop h (r # take (9 - length pre) post) k"
    using inferColumnType_first [of records pre r post k h] by blast
  moreover have "inferColumnType_loop h (r # take (9 - length pre) post) k
      = (if dateRegex_test s then ''DateTime'' else ''Text'')"
    using v by (rule inferColumnType_string)
  ultimately show "inferColumnType h records k = (if dateRegex_test s then ''DateTime'' else ''Text'')"
    by (rule trans)
next
  fix pre r post k
  assume a: "records = pre @ r # post \<and> length pre < 10
          \<and> (\<forall>p \<in> set pre. nullish (object_member p k))"
    and v: "\<not> nullish (object_member r k)
             \<and> typeof_any h (object_member r k) \<notin> {''number'', ''boolean'', ''string''}"
  from a have "inferColumnType h records k = inferColumnType_loop h (r # take (9 - length pre) post) k"
    using inferColumnType_first [of records pre r post k h] by blast
  moreover have "inferColumnType_loop h (r # take (9 - length pre) post) k = ''Text''"
    using v inferColumnType_other [of r k h "take (9 - length pre) post"] by blast
  ultimately show "inferColumnType h records k = ''Text''"
    by (rule trans)
next
  fix k
  assume "\<forall>p \<in> set (take 10 records). nullish (object_member p k)"
  then show "inferColumnType h records k = ''Text''"
    by (rule inferColumnType_window)
qed

lemma scored_missing: "missingColumns [JStr ''id''] scored_records = [''score'']"
  by (simp add: missingColumns_def requiredColumns_def scored_records_def add_key_def)

lemma scored_type: "inferColumnType [] scored_records ''score'' = ''Int''"
  by (simp add: inferColumnType_def scored_records_def object_member_def typeof_any_def
      typeof_def resolve_def isInteger_def)

lemma demo_onLog: "onLog demo_client"
  by (simp add: demo_client_def)

lemma try_404:
  "ensureColumnsExist_try demo_client answer_404 [] scored_records no_effects =
     (Inl (new_Error ''Document, table ou URL introuvable - (v) Verifiez que le Document ID est correct (dans l'URL Grist)''),
      \<lparr>logged = [(''(?) Verification des colonnes existantes...'', log_info)], warned = [],
        sent = [list_columns_request demo_client]\<rparr>)"
  by (simp add: ensureColumnsExist_try_def getColumns_404 log_msg_def no_effects_def demo_onLog)

text \<open>
  The theorem at the scenario (one creation request, holding \<^verbatim>\<open>score\<close> with the type
  \<^verbatim>\<open>Int\<close>, which the first record decides; a key that no record has would be
  \<^verbatim>\<open>Text\<close>), and at a server that answers 404 to the listing (the failure is logged
  and swallowed).
\<close>

theorem ensureColumnsExist_contract_witness:
  "scored_records \<noteq> []
   \<and> existing_id_only (sent no_effects) (list_columns_request demo_client)
       = Resolves \<lparr>status = 200, text_body = Inr [],
               json_body = Inr (JObj [(''columns'', JArr
                 [JObj [(''id'', JStr ''id''),
                        (''fields'', JObj [(''label'', JStr ''id''), (''type'', JStr ''Int''),
                                           (''colId'', JStr ''id'')])]])])\<rparr>
   \<and> sent (snd (ensureColumnsExist demo_client existing_id_only [] scored_records no_effects))
       = [list_columns_request demo_client,
          columns_request demo_client
            [\<lparr>col_id = ''score'', col_label = Some ''score'', col_type = Some ''Int''\<rparr>]]
   \<and> fst (ensureColumnsExist_try demo_client answer_404 [] scored_records no_effects)
       = Inl (new_Error ''Document, table ou URL introuvable - (v) Verifiez que le Document ID est correct (dans l'URL Grist)'')
   \<and> ensureColumnsExist demo_client answer_404 [] scored_records no_effects
       = (Inr (),
          \<lparr>logged = [(''(?) Verification des colonnes existantes...'', log_info),
                     (''(!) Avertissement lors de la creation automatique des colonnes: Document, table ou URL introuvable - (v) Verifiez que le Document ID est correct (dans l'URL Grist)'', log_error)],
            warned = [''Avertissement lors de la creation automatique des colonnes: Document, table ou URL introuvable - (v) Verifiez que le Document ID est correct (dans l'URL Grist)''],
            sent = [list_columns_request demo_client]\<rparr>)
   \<and> scored_records = [] @ [(''id'', JNum (Finite 1)), (''score'', JNum (Finite 10))]
                            # [[(''id'', JNum (Finite 2)), (''score'', JNum (Finite 20))]]
   \<and> object_member [(''id'', JNum (Finite 1)), (''score'', JNum (Finite 10))] ''score''
        = Data (JNum (Finite (of_int 10)))
   \<and> inferColumnType [] scored_records ''score'' = ''Int''
   \<and> nullish (object_member [(''id'', JNum (Finite 1)), (''score'', JNum (Finite 10))] ''rank'')
   \<and> nullish (object_member [(''id'', JNum (Finite 2)), (''score'', JNum (Finite 20))] ''rank'')
   \<and> inferColumnType [] scored_records ''rank'' = ''Text''"
proof -
  let ?r1 = "[(''id'', JNum (Finite 1)), (''score'', JNum (Finite 10))] :: grist_record"
  let ?r2 = "[(''id'', JNum (Finite 2)), (''score'', JNum (Finite 20))] :: grist_record"
  let ?r = "\<lparr>status = 200, text_body = Inr [],
               json_body = Inr (JObj [(''columns'', JArr
                 [JObj [(''id'', JStr ''id''),
                        (''fields'', JObj [(''label'', JStr ''id''), (''type'', JStr ''Int''),
                                           (''colId'', JStr ''id'')])]])])\<rparr>"
  let ?data = "JObj [(''columns'', JArr
                 [JObj [(''id'', JStr ''id''),
                        (''fields'', JObj [(''label'', JStr ''id''), (''type'', JStr ''Int''),
                                           (''colId'', JStr ''id'')])]])]"
  let ?cs = "JArr [JObj [(''id'', JStr ''id''),
                        (''fields'', JObj [(''label'', JStr ''id''), (''type'', JStr ''Int''),
                                           (''colId'', JStr ''id'')])]]"
  note contract = ensureColumnsExist_contract [of demo_client _ "[]" scored_records no_effects]
  have ne: "scored_records \<noteq> []" by (simp add: scored_records_def)
  have answer: "existing_id_only (sent no_effects) (list_columns_request demo_client) = Resolves ?r"
    by (simp add: existing_id_only_def)
  have okr: "ok ?r" by (simp add: ok_def)
  have body: "json_body ?r = Inr ?data" by simp
  have cols: "get_prop [] ?data ''columns'' = Inr ?cs" by (simp add: get_prop_def resolve_def)
  have ids: "column_ids (if falsy ?cs then JArr [] else ?cs) = Inr [JStr ''id'']"
    by (simp add: falsy_def column_ids_def get_prop_def resolve_def)
  have hyps: "scored_records \<noteq> []
          \<and> existing_id_only (sent no_effects) (list_columns_request demo_client) = Resolves ?r
          \<and> ok ?r \<and> json_body ?r = Inr ?data \<and> get_prop [] ?data ''columns'' = Inr ?cs
          \<and> column_ids (if falsy ?cs then JArr [] else ?cs) = Inr [JStr ''id'']"
    by (intro conjI ne answer okr body cols ids)
  note listed = contract [of existing_id_only, THEN conjunct2, THEN conjunct2, THEN conjunct1,
      rule_format, of ?r ?data ?cs "[JStr ''id'']", OF hyps, THEN conjunct1]
  from listed
  have "sent (snd (ensureColumnsExist demo_client existing_id_only [] scored_records no_effects)) =
           sent no_effects @ list_columns_request demo_client #
             (if missingColumns [JStr ''id''] scored_records = [] then []
              else [columns_request demo_client
                      (columnsToCreate [] scored_records (missingColumns [JStr ''id''] scored_records))])" .
  then have created: "sent (snd (ensureColumnsExist demo_client existing_id_only [] scored_records no_effects))
       = [list_columns_request demo_client,
          columns_request demo_client
            [\<lparr>col_id = ''score'', col_label = Some ''score'', col_type = Some ''Int''\<rparr>]]"
    by (simp add: scored_missing columnsToCreate_def scored_type no_effects_def)
  have failed: "fst (ensureColumnsExist_try demo_client answer_404 [] scored_records no_effects)
       = Inl (new_Error ''Document, table ou URL introuvable - (v) Verifiez que le Document ID est correct (dans l'URL Grist)'')"
    by (simp add: try_404)
  have hyps2: "scored_records \<noteq> []
      \<and> fst (ensureColumnsExist_try demo_client answer_404 [] scored_records no_effects)
          = Inl (new_Error ''Document, table ou URL introuvable - (v) Verifiez que le Document ID est correct (dans l'URL Grist)'')"
    by (intro conjI ne failed)
  note warned = contract [of answer_404, THEN conjunct2, THEN conjunct1, rule_format, OF hyps2]
  from warned
  obtain e where e: "new_Error ''Document, table ou URL introuvable - (v) Verifiez que le Document ID est correct (dans l'URL Grist)'' = Thrown_Error e"
    and sw: "ensureColumnsExist demo_client answer_404 [] scored_records no_effects =
               (Inr (),
                console_warn (''Avertissement lors de la creation automatique des colonnes: ''
                                @ err_message e)
                  (log_msg demo_client (''(!) Avertissement lors de la creation automatique des colonnes: ''
                                @ err_message e) log_error
                     (snd (ensureColumnsExist_try demo_client answer_404 [] scored_records no_effects))))"
    by (elim exE conjE)
  from e have "err_message e = ''Document, table ou URL introuvable - (v) Verifiez que le Document ID est correct (dans l'URL Grist)''"
    by (auto simp: new_Error_def)
  with sw have swallowed: "ensureColumnsExist demo_client answer_404 [] scored_records no_effects
       = (Inr (),
          \<lparr>logged = [(''(?) Verification des colonnes existantes...'', log_info),
                     (''(!) Avertissement lors de la creation automatique des colonnes: Document, table ou URL introuvable - (v) Verifiez que le Document ID est correct (dans l'URL Grist)'', log_error)],
            warned = [''Avertissement lors de la creation automatique des colonnes: Document, table ou URL introuvable - (v) Verifiez que le Document ID est correct (dans l'URL Grist)''],
            sent = [list_columns_request demo_client]\<rparr>)"
    by (simp add: try_404 console_warn_def log_msg_def demo_onLog)
  have shape: "scored_records = [] @ ?r1 # [?r2]" by (simp add: scored_records_def)
  have first: "object_member ?r1 ''score'' = Data (JNum (Finite (of_int 10)))"
    by (simp add: object_member_def)
  have hyps3: "scored_records = [] @ ?r1 # [?r2] \<and> length ([] :: grist_record list) < 10
          \<and> (\<forall>p \<in> set ([] :: grist_record list). nullish (object_member p ''score''))"
    by (simp add: scored_records_def)
  note whole = contract [of existing_id_only, THEN conjunct2, THEN conjunct2, THEN conjunct2,
      THEN conjunct1, rule_format, of "[]" ?r1 "[?r2]" "''score''", OF hyps3, THEN conjunct1,
      rule_format, of 10, OF first]
  have n1: "nullish (object_member ?r1 ''rank'')"
    by (simp add: object_member_def object_prototype_methods_def nullish_def)
  have n2: "nullish (object_member ?r2 ''rank'')"
    by (simp add: object_member_def object_prototype_methods_def nullish_def)
  have hyps4: "nullish (object_member p ''rank'')" if "p \<in> set (take 10 scored_records)" for p
    using that n1 n2 by (auto simp: scored_records_def)
  note none = contract [of existing_id_only, THEN conjunct2, THEN conjunct2, THEN conjunct2,
      THEN conjunct2, rule_format, of "''rank''", OF hyps4]
  show ?thesis by (intro conjI ne answer created failed swallowed shape first whole n1 n2 none)
qed

section \<open>Properties: totality of serializeValue\<close>

lemma traverse_Inr:
  "(\<And>x. x \<in> set xs \<Longrightarrow> \<exists>y. f x = Inr y) \<Longrightarrow> \<exists>ys. traverse f xs = Inr ys"
proof (induction xs)
  case Nil
  then show ?case by simp
next
  case (Cons x xs)
  then obtain y where "f x = Inr y" by auto
  moreover from Cons obtain ys where "traverse f xs = Inr ys" by auto
  ultimately show ?case by simp
qed

lemma JSON_stringify_ref_free: "ref_free v \<Longrightarrow> \<exists>t. JSON_stringify P h v = Inr t"
proof (induction P h v rule: JSON_stringify.induct)
  case (7 P h xs)
  then have "\<And>x. x \<in> set xs \<Longrightarrow> \<exists>t. JSON_stringify P h x = Inr t"
    by (auto simp: list_all_iff)
  then obtain ts where "traverse (JSON_stringify P h) xs = Inr ts"
    using traverse_Inr [of xs "JSON_stringify P h"] by blast
  then show ?case by simp
next
  case (8 P h ps)
  then have "\<And>p. p \<in> set ps \<Longrightarrow> \<exists>t. JSON_stringify P h (snd p) = Inr t"
    by (auto simp: list_all_iff)
  then obtain ts where "traverse (\<lambda>p. JSON_stringify P h (snd p)) ps = Inr ts"
    using traverse_Inr [of ps "\<lambda>p. JSON_stringify P h (snd p)"] by blast
  then show ?case by simp
qed simp_all

lemma serializeItem_ref_free: "ref_free item \<Longrightarrow> \<exists>s. serializeItem P h item = Inr s"
  using JSON_stringify_ref_free [of item P h]
  by (auto simp: serializeItem_def split: sum.splits)

lemma acyclic_within_mono: "acyclic_within h n v \<Longrightarrow> n \<le> m \<Longrightarrow> acyclic_within h m v"
proof (induction h n v arbitrary: m rule: acyclic_within.induct)
  case (1 h a)
  then show ?case by simp
next
  case (2 h n a)
  then obtain k where m: "m = Suc k" and "n \<le> k" by (cases m) auto
  with 2 show ?case by (auto split: option.splits)
next
  case (3 h n xs)
  then show ?case by (auto simp: list_all_iff)
next
  case (4 h n ps)
  then show ?case by (auto simp: list_all_iff)
qed simp_all

lemma size_element: "x \<in> set xs \<Longrightarrow> size x < size (JArr xs)"
  by (induction xs) auto

lemma size_member: "p \<in> set ps \<Longrightarrow> size (snd p) < size (JObj ps)"
  by (induction ps) auto

lemma map_of_drop_cell: "b \<noteq> a \<Longrightarrow> map_of (drop_cell a h) b = map_of h b"
  by (induction h) (auto simp: drop_cell_def)

lemma acyclic_ref_least:
  assumes "acyclic_within h n (JRef a)"
  shows "\<exists>k c. k < n \<and> map_of h a = Some c \<and> acyclic_within h k c \<and> \<not> acyclic_within h k (JRef a)"
proof -
  define m where "m = (LEAST m. acyclic_within h m (JRef a))"
  have am: "acyclic_within h m (JRef a)" unfolding m_def using assms by (rule LeastI)
  have le: "m \<le> n" unfolding m_def using assms by (rule Least_le)
  from am obtain k where mk: "m = Suc k" by (cases m) auto
  with am obtain c where c: "map_of h a = Some c" and ac: "acyclic_within h k c"
    by (auto split: option.splits)
  have na: "\<not> acyclic_within h k (JRef a)"
  proof
    assume "acyclic_within h k (JRef a)"
    then have "m \<le> k" unfolding m_def by (rule Least_le)
    with mk show False by simp
  qed
  from mk le have "k < n" by simp
  with c ac na show ?thesis by blast
qed

lemma JSON_stringify_acyclic:
  "acyclic_within h n v \<Longrightarrow> (\<And>b. acyclic_within h n (JRef b) \<Longrightarrow> map_of h' b = map_of h b)
     \<Longrightarrow> \<exists>t. JSON_stringify P h' v = Inr t"
proof (induction n arbitrary: v h' rule: less_induct)
  case (less n)
  note outer = less.IH
  note agree = less.prems(2)
  have inner: "acyclic_within h n w \<Longrightarrow> \<exists>t. JSON_stringify P h' w = Inr t" for w
  proof (induction w rule: measure_induct_rule [of size])
    case (less w)
    show ?case
    proof (cases w)
      case (JArr xs)
      have "\<And>x. x \<in> set xs \<Longrightarrow> \<exists>t. JSON_stringify P h' x = Inr t"
        using less JArr size_element by (auto simp: list_all_iff)
      then obtain ts where "traverse (JSON_stringify P h') xs = Inr ts"
        using traverse_Inr [of xs "JSON_stringify P h'"] by blast
      with JArr show ?thesis by simp
    next
      case (JObj ps)
      have "\<And>p. p \<in> set ps \<Longrightarrow> \<exists>t. JSON_stringify P h' (snd p) = Inr t"
        using less JObj size_member by (auto simp: list_all_iff)
      then obtain ts where "traverse (\<lambda>p. JSON_stringify P h' (snd p)) ps = Inr ts"
        using traverse_Inr [of ps "\<lambda>p. JSON_stringify P h' (snd p)"] by blast
      with JObj show ?thesis by simp
    next
      case (JRef a)
      with less.prems obtain k c where k: "k < n" and c: "map_of h a = Some c"
        and ac: "acyclic_within h k c" and na: "\<not> acyclic_within h k (JRef a)"
        using acyclic_ref_least by blast
      from less.prems JRef have "map_of h' a = Some c" using agree c by simp
      then have step: "JSON_stringify P h' (JRef a) = JSON_stringify P (drop_cell a h') c" by simp
      have "\<exists>t. JSON_stringify P (drop_cell a h') c = Inr t"
      proof (rule outer [OF k ac])
        fix b assume b: "acyclic_within h k (JRef b)"
        with na have "b \<noteq> a" by auto
        then have "map_of (drop_cell a h') b = map_of h' b" by (rule map_of_drop_cell)
        also have "\<dots> = map_of h b"
          using agree acyclic_within_mono [OF b] k by simp
        finally show "map_of (drop_cell a h') b = map_of h b" .
      qed
      with step JRef show ?thesis by simp
    qed simp_all
  qed
  from less.prems(1) show ?case by (rule inner)
qed

lemma serializeItem_acyclic:
  "acyclic_within h n item \<Longrightarrow> \<exists>s. serializeItem P h item = Inr s"
  using JSON_stringify_acyclic [of h n item h P]
  by (auto simp: serializeItem_def split: sum.splits)

lemma traverse_serializeItem:
  assumes "list_all (acyclic_within h n) items"
  shows "\<exists>ts. traverse (serializeItem P h) items = Inr ts"
proof (rule traverse_Inr)
  fix x assume "x \<in> set items"
  with assms have "acyclic_within h n x" by (simp add: list_all_iff)
  then show "\<exists>s. serializeItem P h x = Inr s" by (rule serializeItem_acyclic)
qed

lemma acyclic_within_cell:
  "acyclic_within h n v \<Longrightarrow> acyclic_within h n (resolve h v)"
proof (cases v)
  case (JRef a)
  assume a: "acyclic_within h n v"
  with JRef obtain k where n: "n = Suc k" by (cases n) auto
  with a JRef obtain c where "map_of h a = Some c" and "acyclic_within h k c"
    by (auto split: option.splits)
  with JRef n show ?thesis
    using acyclic_within_mono [of h k c n] by (simp add: resolve_def)
qed (simp_all add: resolve_def)

lemma self_reference_never_acyclic:
  "\<not> acyclic_within [(0, JObj [(''self'', JRef 0)])] n (JRef 0)"
  by (induction n) simp_all

lemma ref_free_acyclic: "ref_free v \<Longrightarrow> acyclic_within h n v"
  by (induction h n v rule: acyclic_within.induct) (auto simp: list_all_iff)

text \<open>
  C9, as stated, fails. On an object that holds itself (\<^verbatim>\<open>const o = {}; o.self = o\<close>)
  \<^verbatim>\<open>JSON.stringify\<close> raises TypeError and \<open>serializeValue\<close> lets it through; on the
  invalid date (\<^verbatim>\<open>new Date(NaN)\<close>) \<^verbatim>\<open>toISOString\<close> raises RangeError.
\<close>

theorem serializeValue_cyclic_counterexample:
  "\<forall>P. serializeValue P [(0, JObj [(''self'', JRef 0)])] (JRef 0)
          = Inl (TypeError ''Converting circular structure to JSON'')
      \<and> serializeValue P [] (JDate None) = Inl (RangeError ''Invalid time value'')"
  by (simp add: serializeValue_def resolve_def drop_cell_def cyclic_error_def toISOString_def)

text \<open>
  C9, amended. For every value that is finite and acyclic (\<open>acyclic_within\<close> for some
  bound), however deeply nested and whatever it shares, the invalid date apart,
  \<open>serializeValue\<close> returns; on a value without references what it returns is a scalar.
  The function is pure: its result depends on its arguments only.
\<close>

theorem serializeValue_total_on_acyclic:
  "(acyclic_within h n v \<and> resolve h v \<noteq> JDate None \<longrightarrow> (\<exists>r. serializeValue P h v = Inr r))
   \<and> (ref_free v \<and> v \<noteq> JDate None \<longrightarrow> (\<exists>r. serializeValue P h v = Inr r \<and> scalar r))"
proof (intro conjI impI)
  assume a: "acyclic_within h n v \<and> resolve h v \<noteq> JDate None"
  then have cell: "acyclic_within h n (resolve h v)" by (simp add: acyclic_within_cell)
  show "\<exists>r. serializeValue P h v = Inr r"
  proof (cases "v = JNull \<or> v = JUndefined")
    case True
    then show ?thesis by (auto simp: serializeValue_def)
  next
    case False
    show ?thesis
    proof (cases "resolve h v")
      case (JArr items)
      with cell obtain ts where "traverse (serializeItem P h) items = Inr ts"
        using traverse_serializeItem [of h n items P] by auto
      with JArr False show ?thesis by (simp add: serializeValue_def)
    next
      case (JObj ps)
      from a obtain t where "JSON_stringify P h v = Inr t"
        using JSON_stringify_acyclic [of h n v h P] by blast
      with JObj False show ?thesis by (simp add: serializeValue_def)
    next
      case (JDate t)
      with a obtain ms where "t = Some ms" by (cases t) auto
      with JDate False show ?thesis by (simp add: serializeValue_def toISOString_def)
    qed (simp_all add: serializeValue_def False)
  qed
next
  assume a: "ref_free v \<and> v \<noteq> JDate None"
  show "\<exists>r. serializeValue P h v = Inr r \<and> scalar r"
  proof (cases v)
    case (JArr items)
    with a have "list_all (acyclic_within h 0) items"
      using ref_free_acyclic by (auto simp: list_all_iff)
    then obtain ts where "traverse (serializeItem P h) items = Inr ts"
      using traverse_serializeItem [of h 0 items P] by auto
    with JArr show ?thesis by (simp add: serializeValue_def resolve_def scalar_def)
  next
    case (JObj ps)
    with a obtain t where "JSON_stringify P h v = Inr t"
      using JSON_stringify_ref_free [of v P h] by blast
    with JObj show ?thesis
      by (cases t) (simp_all add: serializeValue_def resolve_def scalar_def)
  next
    case (JDate t)
    with a obtain ms where "t = Some ms" by (cases t) auto
    with JDate show ?thesis
      by (simp add: serializeValue_def resolve_def toISOString_def scalar_def)
  next
    case (JRef a')
    with a show ?thesis by simp
  qed (simp_all add: serializeValue_def resolve_def scalar_def)
qed

text \<open>
  The theorem at an array that holds the same object twice,
  \<^verbatim>\<open>const o = {x: 1}; [o, o, "a"]\<close>, and at the tree \<^verbatim>\<open>[1, {x: null}, "a"]\<close>.
\<close>

theorem serializeValue_total_on_acyclic_witness:
  "\<forall>P. acyclic_within [(0, JObj [(''x'', JNum (Finite 1))])] 1 (JArr [JRef 0, JRef 0, JStr ''a''])
      \<and> resolve [(0, JObj [(''x'', JNum (Finite 1))])] (JArr [JRef 0, JRef 0, JStr ''a''])
           \<noteq> JDate None
      \<and> (\<exists>r. serializeValue P [(0, JObj [(''x'', JNum (Finite 1))])]
                 (JArr [JRef 0, JRef 0, JStr ''a'']) = Inr r)
      \<and> ref_free (JArr [JNum (Finite 1), JObj [(''x'', JNull)], JStr ''a''])
      \<and> JArr [JNum (Finite 1), JObj [(''x'', JNull)], JStr ''a''] \<noteq> JDate None
      \<and> (\<exists>r. serializeValue P [] (JArr [JNum (Finite 1), JObj [(''x'', JNull)], JStr ''a''])
                = Inr r \<and> scalar r)"
proof
  fix P
  let ?h = "[(0, JObj [(''x'', JNum (Finite 1))])] :: heap"
  let ?v = "JArr [JRef 0, JRef 0, JStr ''a'']"
  let ?w = "JArr [JNum (Finite 1), JObj [(''x'', JNull)], JStr ''a'']"
  have ac: "acyclic_within ?h 1 ?v" by simp
  have nd: "resolve ?h ?v \<noteq> JDate None" by (simp add: resolve_def)
  from serializeValue_total_on_acyclic [of ?h 1 ?v P] ac nd
  have shared: "\<exists>r. serializeValue P ?h ?v = Inr r" by blast
  have tree: "ref_free ?w" by simp
  have nd': "?w \<noteq> JDate None" by simp
  from serializeValue_total_on_acyclic [of "[]" 0 ?w P] tree nd'
  have flat: "\<exists>r. serializeValue P [] ?w = Inr r \<and> scalar r" by blast
  show "acyclic_within ?h 1 ?v \<and> resolve ?h ?v \<noteq> JDate None
      \<and> (\<exists>r. serializeValue P ?h ?v = Inr r)
      \<and> ref_free ?w \<and> ?w \<noteq> JDate None
      \<and> (\<exists>r. serializeValue P [] ?w = Inr r \<and> scalar r)"
    by (intro conjI ac nd shared tree nd' flat)
qed

end
